theory Spec2Isabelle
  imports Main
begin

section \<open>Strings and objects of the source language\<close>

text \<open>
  The program is TypeScript. A JavaScript string is modelled as a \<open>string\<close>, a plain
  object used as a dictionary (\<open>KeyValueType\<close>, the \<open>versions\<close> table) as an association
  list in insertion order whose keys are distinct, \<open>undefined\<close> as \<open>None\<close>.
\<close>

type_synonym KeyValueType = "(string \<times> string) list"

text \<open>\<open>s.split(c)\<close> for a one-character separator: never an empty array.\<close>

fun js_split :: "char \<Rightarrow> string \<Rightarrow> string list" where
  "js_split c [] = [[]]"
| "js_split c (x # xs) =
     (if x = c then [] # js_split c xs
      else (case js_split c xs of [] \<Rightarrow> [[x]] | w # ws \<Rightarrow> (x # w) # ws))"

text \<open>\<open>Object.keys(o)\<close> and \<open>o[k]\<close>.\<close>

definition object_keys :: "(string \<times> 'v) list \<Rightarrow> string list" where
  "object_keys obj = map fst obj"

definition lookup_key :: "(string \<times> 'v) list \<Rightarrow> string \<Rightarrow> 'v option" where
  "lookup_key obj k = map_of obj k"

section \<open>Range-string helpers of the registry client\<close>

definition extractPackageNameFromVersion :: "string \<Rightarrow> string" where
  "extractPackageNameFromVersion version =
     (let versionRangeArray = js_split (CHR ''@'') version;
          nameParts = js_split (CHR '':'') (versionRangeArray ! 0)
      in if length nameParts > 1 then nameParts ! 1 else nameParts ! 0)"

definition extractVersionFromVersion :: "string \<Rightarrow> string" where
  "extractVersionFromVersion version =
     (let versionRangeArray = js_split (CHR ''@'') version
      in if length versionRangeArray > 1 then versionRangeArray ! 1 else versionRangeArray ! 0)"

definition getSanitizedVersion :: "string \<Rightarrow> string" where
  "getSanitizedVersion version =
     (let versionRangeArray = js_split (CHR ''@'') version
      in if length versionRangeArray > 1 then versionRangeArray ! 1 else versionRangeArray ! 0)"

definition isVersionContainPackageName :: "string \<Rightarrow> bool" where
  "isVersionContainPackageName version = (CHR ''@'' \<in> set version)"

section \<open>The semantic-version library\<close>

text \<open>
  The program calls \<open>semver.satisfies\<close> and \<open>semver.maxSatisfying\<close> of the npm package
  \<open>semver\<close>. The library is a parameter of the model: \<open>satisfies v r\<close> is \<open>Range.test\<close>
  (false for a version or a range that does not parse), \<open>compare a b\<close> is
  \<open>SemVer.compare\<close> with results \<open>-1\<close>, \<open>0\<close>, \<open>1\<close>.
\<close>

record semver =
  satisfies :: "string \<Rightarrow> string \<Rightarrow> bool"
  compare :: "string \<Rightarrow> string \<Rightarrow> int"

text \<open>
  \<open>maxSatisfying\<close> as the library writes it: a left-to-right pass that keeps the first
  version seen and replaces it only by a strictly greater one; \<open>null\<close> when nothing
  satisfies the range.
\<close>

definition maxStep :: "semver \<Rightarrow> string \<Rightarrow> string \<Rightarrow> string option \<Rightarrow> string option" where
  "maxStep sv rng v mx =
     (if satisfies sv v rng
      then (case mx of None \<Rightarrow> Some v
            | Some m \<Rightarrow> if compare sv m v = - 1 then Some v else Some m)
      else mx)"

definition maxSatisfying :: "semver \<Rightarrow> string list \<Rightarrow> string \<Rightarrow> string option" where
  "maxSatisfying sv versions rng = fold (maxStep sv rng) versions None"

subsection \<open>A concrete fragment of the library\<close>

text \<open>
  For concrete runs: versions are \<open>MAJOR.MINOR.PATCH\<close> with decimal numbers without
  leading zeros (no prerelease tag, no build metadata); ranges are the empty string and
  \<open>*\<close> (any version), \<open>^v\<close>, \<open>~v\<close> and an exact version \<open>v\<close>, with the library's meaning.
\<close>

definition parse_num :: "string \<Rightarrow> nat option" where
  "parse_num s =
     (if s = [] \<or> (\<exists>c \<in> set s. c \<notin> set ''0123456789'') \<or> (length s > 1 \<and> hd s = CHR ''0'')
      then None
      else Some (foldl (\<lambda>n c. 10 * n + (of_char c - 48)) 0 s))"

definition parse_version :: "string \<Rightarrow> (nat \<times> nat \<times> nat) option" where
  "parse_version s =
     (case map parse_num (js_split (CHR ''.'') s) of
        [Some a, Some b, Some c] \<Rightarrow> Some (a, b, c)
      | _ \<Rightarrow> None)"

fun triple_less :: "nat \<times> nat \<times> nat \<Rightarrow> nat \<times> nat \<times> nat \<Rightarrow> bool" where
  "triple_less (a, b, c) (x, y, z) = (a < x \<or> (a = x \<and> (b < y \<or> (b = y \<and> c < z))))"

datatype vrange = AnyVersion | Caret "nat \<times> nat \<times> nat" | Tilde "nat \<times> nat \<times> nat"
  | Exact "nat \<times> nat \<times> nat"

definition parse_range :: "string \<Rightarrow> vrange option" where
  "parse_range r =
     (if r = [] \<or> r = ''*'' then Some AnyVersion
      else if hd r = CHR ''^'' then map_option Caret (parse_version (tl r))
      else if hd r = CHR ''~'' then map_option Tilde (parse_version (tl r))
      else map_option Exact (parse_version r))"

fun caret_upper :: "nat \<times> nat \<times> nat \<Rightarrow> nat \<times> nat \<times> nat" where
  "caret_upper (a, b, c) =
     (if a > 0 then (a + 1, 0, 0) else if b > 0 then (0, b + 1, 0) else (0, 0, c + 1))"

fun tilde_upper :: "nat \<times> nat \<times> nat \<Rightarrow> nat \<times> nat \<times> nat" where
  "tilde_upper (a, b, c) = (a, b + 1, 0)"

fun range_test :: "vrange \<Rightarrow> nat \<times> nat \<times> nat \<Rightarrow> bool" where
  "range_test AnyVersion v = True"
| "range_test (Caret l) v = (\<not> triple_less v l \<and> triple_less v (caret_upper l))"
| "range_test (Tilde l) v = (\<not> triple_less v l \<and> triple_less v (tilde_upper l))"
| "range_test (Exact l) v = (v = l)"

definition semver_satisfies :: "string \<Rightarrow> string \<Rightarrow> bool" where
  "semver_satisfies v r =
     (case (parse_version v, parse_range r) of
        (Some pv, Some pr) \<Rightarrow> range_test pr pv
      | _ \<Rightarrow> False)"

definition semver_compare :: "string \<Rightarrow> string \<Rightarrow> int" where
  "semver_compare a b =
     (case (parse_version a, parse_version b) of
        (Some x, Some y) \<Rightarrow> if triple_less x y then - 1 else if triple_less y x then 1 else 0
      | _ \<Rightarrow> 0)"

definition semver_lib :: semver where
  "semver_lib = \<lparr> satisfies = semver_satisfies, compare = semver_compare \<rparr>"


section \<open>Registry documents\<close>

text \<open>
  The fields of \<open>VersionResponse\<close>, \<open>PackageResponse\<close> and of a package descriptor
  (\<open>Package\<close>, the content of a \<open>package.json\<close>) that the program reads. A field that
  may be absent from the document is an \<open>option\<close>.
\<close>

record VersionDistResponse =
  shasum :: string
  tarball :: string
  dist_fileCount :: nat
  unpackedSize :: nat

datatype bin_field = BinPath string | BinMap KeyValueType

record VersionResponse =
  v_name :: string
  v_version :: string
  v_dependencies :: "KeyValueType option"
  v_dist :: VersionDistResponse
  v_bin :: "bin_field option"

record PackageResponse =
  r_name :: string
  versions :: "(string \<times> VersionResponse) list"

record Package =
  p_name :: string
  p_version :: string
  p_dependencies :: "KeyValueType option"
  p_devDependencies :: "KeyValueType option"

text \<open>
  \<open>packageResponse.versions[closestVersion]\<close>, where \<open>closestVersion\<close> may be \<open>null\<close>:
  JavaScript turns the key \<open>null\<close> into the property name \<open>"null"\<close>.
\<close>

definition index_nullable :: "(string \<times> 'v) list \<Rightarrow> string option \<Rightarrow> 'v option" where
  "index_nullable obj k = lookup_key obj (case k of None \<Rightarrow> ''null'' | Some s \<Rightarrow> s)"


definition isVersionSatisfies :: "semver \<Rightarrow> string \<Rightarrow> string \<Rightarrow> bool" where
  "isVersionSatisfies sv packageVersion requiredModuleVersion =
     (let versionRange = getSanitizedVersion requiredModuleVersion
      in satisfies sv packageVersion requiredModuleVersion)"




section \<open>Errors\<close>

text \<open>
  Every \<open>throw\<close> and every rejected promise is a value: \<open>Error m\<close> is
  \<open>new Error(m)\<close>, \<open>TypeError m\<close> what the runtime throws when a property of
  \<open>undefined\<close> is read, \<open>SyntaxError\<close> a failing \<open>JSON.parse\<close>, \<open>FsError c\<close> a failing
  call of the \<open>fs\<close> module with its code, \<open>FetchError\<close> a rejected \<open>fetch\<close>,
  \<open>StreamError\<close> a promise rejected by the \<open>error\<close> event of a read stream, and
  \<open>UncaughtStreamError\<close> an \<open>error\<close> event of a stream that nothing listens to: it is
  thrown as an uncaught exception and ends the process.
\<close>

datatype error = Error string | TypeError string | SyntaxError | FsError string
  | FetchError | StreamError | UncaughtStreamError

section \<open>Paths\<close>

text \<open>
  POSIX paths. A path string is cut at \<open>/\<close>; empty segments and \<open>.\<close> are dropped and
  \<open>..\<close> removes the segment before it. The file-system calls resolve a relative path
  against the working directory of the process.
\<close>

fun normalize_segments :: "bool \<Rightarrow> string list \<Rightarrow> string list \<Rightarrow> string list" where
  "normalize_segments absolute acc [] = rev acc"
| "normalize_segments absolute acc (s # ss) =
     (if s = [] \<or> s = ''.'' then normalize_segments absolute acc ss
      else if s = ''..'' then
        (case acc of
           [] \<Rightarrow> normalize_segments absolute (if absolute then [] else [s]) ss
         | a # as \<Rightarrow> if a = ''..'' then normalize_segments absolute (s # acc) ss
                    else normalize_segments absolute as ss)
      else normalize_segments absolute (s # acc) ss)"

definition isAbsolute :: "string \<Rightarrow> bool" where
  "isAbsolute p = (p \<noteq> [] \<and> hd p = CHR ''/'')"

fun join_with :: "string \<Rightarrow> string list \<Rightarrow> string" where
  "join_with sep [] = []"
| "join_with sep [s] = s"
| "join_with sep (s # t # ss) = s @ sep @ join_with sep (t # ss)"

definition path_normalize :: "string \<Rightarrow> string" where
  "path_normalize p =
     (let segs = normalize_segments (isAbsolute p) [] (js_split (CHR ''/'') p);
          body = join_with ''/'' segs
      in if isAbsolute p then CHR ''/'' # body else if body = [] then ''.'' else body)"

definition path_join :: "string list \<Rightarrow> string" where
  "path_join parts = path_normalize (join_with ''/'' (filter (\<lambda>s. s \<noteq> []) parts))"

definition path_basename :: "string \<Rightarrow> string" where
  "path_basename p =
     (case filter (\<lambda>s. s \<noteq> []) (js_split (CHR ''/'') p) of [] \<Rightarrow> [] | ss \<Rightarrow> last ss)"

definition path_dirname :: "string \<Rightarrow> string" where
  "path_dirname p =
     (let segs = filter (\<lambda>s. s \<noteq> []) (js_split (CHR ''/'') p);
          body = join_with ''/'' (butlast segs)
      in if isAbsolute p then CHR ''/'' # body else if body = [] then ''.'' else body)"

text \<open>The absolute, normalised segments of a path, as the operating system resolves it.\<close>

definition resolve :: "string list \<Rightarrow> string \<Rightarrow> string list" where
  "resolve cwd p =
     (if isAbsolute p then normalize_segments True [] (js_split (CHR ''/'') p)
      else normalize_segments True (rev cwd) (js_split (CHR ''/'') p))"

fun drop_common :: "string list \<Rightarrow> string list \<Rightarrow> string list \<times> string list" where
  "drop_common (a # as) (b # bs) = (if a = b then drop_common as bs else (a # as, b # bs))"
| "drop_common as bs = (as, bs)"

definition path_relative :: "string list \<Rightarrow> string \<Rightarrow> string \<Rightarrow> string" where
  "path_relative cwd from to =
     (case drop_common (resolve cwd from) (resolve cwd to) of
        (up, down) \<Rightarrow> join_with ''/'' (map (\<lambda>_. ''..'') up @ down))"

section \<open>The file system\<close>

text \<open>
  File contents are kept by what the program does with them: a \<open>package.json\<close> by the
  descriptor \<open>JSON.parse\<close> yields, a cached registry document by its metadata, a
  well-formed archive by what unpacking it with \<open>strip: 1\<close> yields, the regular files
  with their sizes and their paths below the destination. Everything else is \<open>Opaque\<close>:
  it is no JSON document, and unzipping it ends in an error.
\<close>

datatype content =
    Opaque
  | PackageJson Package
  | MetadataJson PackageResponse
  | Archive "(string list \<times> nat \<times> content) list"

text \<open>
  A node of the directory tree: a regular file with its size in bytes, a directory with
  its entries, a symbolic link with its target text and the node the operating system
  resolves it to (nothing for a dangling or looping link), or a special file (socket,
  FIFO, device). Only \<open>stat\<close> and \<open>readdir\<close> see through a link; a path that continues
  below a link is outside the model and does not resolve.
\<close>

datatype node =
    File nat content
  | Dir "(string \<times> node) list"
  | Link string "node option"
  | Special

fun deref :: "node \<Rightarrow> node option" where
  "deref (Link t None) = None"
| "deref (Link t (Some n)) = deref n"
| "deref n = Some n"

fun lstat :: "node \<Rightarrow> string list \<Rightarrow> node option" where
  "lstat n [] = Some n"
| "lstat (Dir es) (k # ks) = (case map_of es k of None \<Rightarrow> None | Some c \<Rightarrow> lstat c ks)"
| "lstat _ (k # ks) = None"

definition stat :: "node \<Rightarrow> string list \<Rightarrow> node option" where
  "stat r p = (case lstat r p of None \<Rightarrow> None | Some n \<Rightarrow> deref n)"

definition put_entry :: "string \<Rightarrow> node \<Rightarrow> (string \<times> node) list \<Rightarrow> (string \<times> node) list" where
  "put_entry k n es =
     (if k \<in> fst ` set es then map (\<lambda>(k', c). if k' = k then (k', n) else (k', c)) es
      else es @ [(k, n)])"

definition remove_entry :: "string \<Rightarrow> (string \<times> node) list \<Rightarrow> (string \<times> node) list" where
  "remove_entry k es = filter (\<lambda>(k', c). k' \<noteq> k) es"

text \<open>
  \<open>alter mk f p r\<close> changes the entry at path \<open>p\<close>: \<open>f\<close> sees the entry (or its absence)
  and gives the new one (or its removal) or an error. Missing parent directories are
  created when \<open>mk\<close> holds and are \<open>ENOENT\<close> otherwise.
\<close>

fun alter :: "bool \<Rightarrow> (node option \<Rightarrow> error + node option) \<Rightarrow> string list \<Rightarrow> node \<Rightarrow> error + node" where
  "alter mk f [] r = Inl (FsError ''EINVAL'')"
| "alter mk f [k] (Dir es) =
     (case f (map_of es k) of
        Inl e \<Rightarrow> Inl e
      | Inr None \<Rightarrow> Inr (Dir (remove_entry k es))
      | Inr (Some n) \<Rightarrow> Inr (Dir (put_entry k n es)))"
| "alter mk f (k # k' # ks) (Dir es) =
     (case map_of es k of
        None \<Rightarrow>
          if mk then (case alter mk f (k' # ks) (Dir []) of
                        Inl e \<Rightarrow> Inl e
                      | Inr d \<Rightarrow> Inr (Dir (put_entry k d es)))
          else Inl (FsError ''ENOENT'')
      | Some c \<Rightarrow>
          (case alter mk f (k' # ks) c of
             Inl e \<Rightarrow> Inl e
           | Inr c' \<Rightarrow> Inr (Dir (put_entry k c' es))))"
| "alter mk f (k # ks) n = Inl (FsError ''ENOTDIR'')"

text \<open>\<open>fs.mkdirSync(p, {recursive: true})\<close>\<close>

definition mkdir_p :: "string list \<Rightarrow> node \<Rightarrow> error + node" where
  "mkdir_p p r =
     (if p = [] then Inr r
      else alter True (\<lambda>cur. case cur of
                None \<Rightarrow> Inr (Some (Dir []))
              | Some n \<Rightarrow> (case deref n of Some (Dir es) \<Rightarrow> Inr (Some n)
                           | _ \<Rightarrow> Inl (FsError ''EEXIST''))) p r)"

text \<open>\<open>fs.rmSync(p, {recursive: true, force: true})\<close>: absence is no error.\<close>

definition rm_rf :: "string list \<Rightarrow> node \<Rightarrow> error + node" where
  "rm_rf p r = (if lstat r p = None then Inr r else alter False (\<lambda>cur. Inr None) p r)"

text \<open>\<open>fs.rmSync(p)\<close>: the entry has to exist and not to be a directory.\<close>

definition rm_file :: "string list \<Rightarrow> node \<Rightarrow> error + node" where
  "rm_file p r =
     alter False (\<lambda>cur. case cur of
         None \<Rightarrow> Inl (FsError ''ENOENT'')
       | Some (Dir es) \<Rightarrow> Inl (FsError ''ERR_FS_EISDIR'')
       | Some n \<Rightarrow> Inr None) p r"

text \<open>
  \<open>fs.createWriteStream(p, {flags: 'wx'})\<close> with the whole body piped into it: the entry
  must not exist, not even as a dangling link.
\<close>

definition create_exclusive :: "string list \<Rightarrow> nat \<Rightarrow> content \<Rightarrow> node \<Rightarrow> error + node" where
  "create_exclusive p sz c r =
     alter False (\<lambda>cur. case cur of
         None \<Rightarrow> Inr (Some (File sz c))
       | Some n \<Rightarrow> Inl (FsError ''EEXIST'')) p r"

text \<open>
  \<open>fs.writeFileSync(p, data)\<close>: creates the file or replaces a regular file. Writing
  through a symbolic link is outside the model and is an error here.
\<close>

definition write_file :: "string list \<Rightarrow> nat \<Rightarrow> content \<Rightarrow> node \<Rightarrow> error + node" where
  "write_file p sz c r =
     alter False (\<lambda>cur. case cur of
         None \<Rightarrow> Inr (Some (File sz c))
       | Some (File sz' c') \<Rightarrow> Inr (Some (File sz c))
       | Some (Dir es) \<Rightarrow> Inl (FsError ''EISDIR'')
       | Some n \<Rightarrow> Inl (FsError ''ELOOP'')) p r"

text \<open>\<open>fs.symlinkSync(target, p)\<close>: the entry must not exist.\<close>

definition symlink :: "string \<Rightarrow> string list \<Rightarrow> node \<Rightarrow> error + node" where
  "symlink target p r =
     alter False (\<lambda>cur. case cur of
         None \<Rightarrow> Inr (Some (Link target (stat r (resolve (butlast p) target))))
       | Some n \<Rightarrow> Inl (FsError ''EEXIST'')) p r"

text \<open>
  Unpacking one archive entry below \<open>dest\<close>: the directories on the way are created, a
  file in the way is replaced, a directory in the way of the file is an error.
\<close>

definition extract_entry :: "string list \<Rightarrow> string list \<times> nat \<times> content \<Rightarrow> node \<Rightarrow> error + node" where
  "extract_entry dest entry r =
     (case entry of (rel, sz, c) \<Rightarrow>
        alter True (\<lambda>cur. case cur of
            Some (Dir es) \<Rightarrow> Inl (FsError ''EISDIR'')
          | _ \<Rightarrow> Inr (Some (File sz c))) (dest @ rel) r)"

text \<open>
  The unpacking of an archive goes on in the background, entry by entry. An entry that
  cannot be written is skipped, as the tar library does outside its strict mode.
  \<open>Broken\<close> stands for the unzipping of a content that is no archive.
\<close>

definition write_entry :: "string list \<Rightarrow> string list \<times> nat \<times> content \<Rightarrow> node \<Rightarrow> node" where
  "write_entry dest entry r = (case extract_entry dest entry r of Inl err \<Rightarrow> r | Inr r' \<Rightarrow> r')"

datatype task = WriteEntry "string list" "string list \<times> nat \<times> content" | Broken

definition tasks_of :: "string list \<Rightarrow> content \<Rightarrow> task list" where
  "tasks_of dest c = (case c of Archive entries \<Rightarrow> map (WriteEntry dest) entries | _ \<Rightarrow> [Broken])"


section \<open>Directory census\<close>

record FolderStat =
  fileCount :: nat
  totalSize :: nat

text \<open>What \<open>fs.statSync\<close> reports of a node it has resolved.\<close>

record Stats =
  isFile :: bool
  isDirectory :: bool
  st_size :: nat

fun stats_of :: "node \<Rightarrow> Stats" where
  "stats_of (File sz c) = \<lparr> isFile = True, isDirectory = False, st_size = sz \<rparr>"
| "stats_of (Dir es) = \<lparr> isFile = False, isDirectory = True, st_size = 4096 \<rparr>"
| "stats_of n = \<lparr> isFile = False, isDirectory = False, st_size = 0 \<rparr>"

definition addFolderStat :: "FolderStat \<Rightarrow> FolderStat \<Rightarrow> FolderStat" where
  "addFolderStat this folderSize =
     this \<lparr> fileCount := fileCount this + fileCount folderSize,
            totalSize := totalSize this + totalSize folderSize \<rparr>"

definition addFileStat :: "FolderStat \<Rightarrow> Stats \<Rightarrow> FolderStat" where
  "addFileStat this st =
     (if isFile st
      then this \<lparr> fileCount := fileCount this + 1, totalSize := totalSize this + st_size st \<rparr>
      else this)"

text \<open>
  \<open>getFolderStat\<close>: \<open>readdirSync\<close> of the directory, then for each entry \<open>statSync\<close>, which
  follows a symbolic link and throws on a dangling one, \<open>addFileStat\<close>, and a recursive
  call when the entry is reported as a directory. \<open>walk\<close> is the \<open>forEach\<close>.
\<close>

fun getFolderStat :: "node \<Rightarrow> error + FolderStat"
  and walk :: "(string \<times> node) list \<Rightarrow> FolderStat \<Rightarrow> error + FolderStat" where
  "getFolderStat (Dir es) = walk es \<lparr> fileCount = 0, totalSize = 0 \<rparr>"
| "getFolderStat (Link t None) = Inl (FsError ''ENOENT'')"
| "getFolderStat (Link t (Some n)) = getFolderStat n"
| "getFolderStat (File sz c) = Inl (FsError ''ENOTDIR'')"
| "getFolderStat Special = Inl (FsError ''ENOTDIR'')"
| "walk [] folderSize = Inr folderSize"
| "walk ((file, File sz c) # rest) folderSize =
     walk rest (addFileStat folderSize (stats_of (File sz c)))"
| "walk ((file, Dir es) # rest) folderSize =
     (case getFolderStat (Dir es) of
        Inl e \<Rightarrow> Inl e
      | Inr sub \<Rightarrow> walk rest (addFolderStat (addFileStat folderSize (stats_of (Dir es))) sub))"
| "walk ((file, Link t None) # rest) folderSize = Inl (FsError ''ENOENT'')"
| "walk ((file, Link t (Some n)) # rest) folderSize = walk ((file, n) # rest) folderSize"
| "walk ((file, Special) # rest) folderSize =
     walk rest (addFileStat folderSize (stats_of Special))"

subsection \<open>The census as the specification words it\<close>

text \<open>
  The number of regular files anywhere in the subtree and the sum of their sizes, where
  symbolic links and special files are not regular files.
\<close>

definition no_files :: FolderStat where
  "no_files = \<lparr> fileCount = 0, totalSize = 0 \<rparr>"

fun spec_census :: "node \<Rightarrow> FolderStat"
  and spec_census_entries :: "(string \<times> node) list \<Rightarrow> FolderStat" where
  "spec_census (File sz c) = \<lparr> fileCount = 1, totalSize = sz \<rparr>"
| "spec_census (Dir es) = spec_census_entries es"
| "spec_census (Link t n) = no_files"
| "spec_census Special = no_files"
| "spec_census_entries [] = no_files"
| "spec_census_entries ((file, n) # rest) =
     addFolderStat (spec_census n) (spec_census_entries rest)"

text \<open>
  The tree as \<open>stat\<close> and \<open>readdir\<close> show it: every symbolic link replaced by the node it
  resolves to; nothing when a link in the tree is dangling.
\<close>

fun followed :: "node \<Rightarrow> node option"
  and followed_entries :: "(string \<times> node) list \<Rightarrow> (string \<times> node) list option" where
  "followed (File sz c) = Some (File sz c)"
| "followed (Dir es) = map_option Dir (followed_entries es)"
| "followed (Link t None) = None"
| "followed (Link t (Some n)) = followed n"
| "followed Special = Some Special"
| "followed_entries [] = Some []"
| "followed_entries ((file, n) # rest) =
     (case followed n of
        None \<Rightarrow> None
      | Some n' \<Rightarrow> map_option (\<lambda>rest'. (file, n') # rest') (followed_entries rest))"

fun link_free :: "node \<Rightarrow> bool"
  and link_free_entries :: "(string \<times> node) list \<Rightarrow> bool" where
  "link_free (File sz c) = True"
| "link_free (Dir es) = link_free_entries es"
| "link_free (Link t n) = False"
| "link_free Special = True"
| "link_free_entries [] = True"
| "link_free_entries ((file, n) # rest) = (link_free n \<and> link_free_entries rest)"

section \<open>The world the program runs in\<close>

text \<open>
  What \<open>fetch\<close> answers: the response with its body (size and content), or nothing when
  the promise is rejected.
\<close>

record response =
  ok :: bool
  status :: nat
  statusText :: string
  body_size :: nat
  body :: content

text \<open>
  The environment is fixed during a run: the working directory of the process (its
  segments), the network, the SHA-1 digest of a content in hex, the length of
  \<open>JSON.stringify\<close> of a metadata document, the semver library, \<open>read_fails\<close>:
  whether the read stream that \<open>getFileHash\<close> or \<open>unpackModule\<close> opens on the file at a
  path ends in an \<open>error\<close> event, an input/output error of the operating system, and
  \<open>progress\<close>: how many of the pending steps of unpacking are done in the background
  while the program waits for the network or for a file.
\<close>

datatype stream_use = Hashing | Unpacking

text \<open>
  The places where the program waits for input or output: for the answer to a request,
  for the body of the answer, for the read stream of the digest, and for the read
  stream of \<open>unpackModule\<close>. An \<open>await\<close> of work that is done without input or output
  lets nothing else run.
\<close>

datatype wait = WaitFetch string | WaitBody string | WaitHash string | WaitUnpack string

record env =
  cwd :: "string list"
  fetch :: "string \<Rightarrow> response option"
  sha1 :: "content \<Rightarrow> string"
  json_length :: "PackageResponse \<Rightarrow> nat"
  semver_of :: semver
  read_fails :: "stream_use \<Rightarrow> string list \<Rightarrow> bool"
  progress :: "wait \<Rightarrow> nat"

text \<open>
  The state is the directory tree, the steps of unpacking that are still pending in the
  background, in their order, and a trace, which the program does not read: the URLs
  fetched, the calls of \<open>downloadModule\<close>, \<open>redownloadModule\<close> and \<open>unpackModule\<close>, and the
  dependency keys the install loop has worked on.
\<close>

datatype event =
    Fetched string
  | DownloadModule string
  | RedownloadModule string
  | UnpackModule string
  | Processing string

record world =
  root :: node
  trace :: "event list"
  pending :: "task list"

type_synonym 'a io = "world \<Rightarrow> (error + 'a) \<times> world"

definition io_return :: "'a \<Rightarrow> 'a io" where
  "io_return x = (\<lambda>w. (Inr x, w))"

definition io_throw :: "error \<Rightarrow> 'a io" where
  "io_throw e = (\<lambda>w. (Inl e, w))"

definition io_bind :: "'a io \<Rightarrow> ('a \<Rightarrow> 'b io) \<Rightarrow> 'b io" where
  "io_bind m f = (\<lambda>w. case m w of (Inl e, w') \<Rightarrow> (Inl e, w') | (Inr x, w') \<Rightarrow> f x w')"

definition io_then :: "unit io \<Rightarrow> 'b io \<Rightarrow> 'b io" where
  "io_then m n = io_bind m (\<lambda>_. n)"

definition io_when :: "bool \<Rightarrow> unit io \<Rightarrow> unit io" where
  "io_when b m = (if b then m else io_return ())"

definition fs_call :: "(node \<Rightarrow> error + node) \<Rightarrow> unit io" where
  "fs_call f = (\<lambda>w. case f (root w) of Inl e \<Rightarrow> (Inl e, w) | Inr r \<Rightarrow> (Inr (), w \<lparr> root := r \<rparr>))"

definition log_event :: "event \<Rightarrow> unit io" where
  "log_event ev = (\<lambda>w. (Inr (), w \<lparr> trace := trace w @ [ev] \<rparr>))"

text \<open>
  The background work: the first \<open>n\<close> pending steps are done in their order. Unzipping
  a content that is no archive ends the process.
\<close>

fun run_tasks :: "task list \<Rightarrow> world \<Rightarrow> (error + unit) \<times> world" where
  "run_tasks [] w = (Inr (), w)"
| "run_tasks (WriteEntry dest entry # ts) w =
     run_tasks ts (w \<lparr> root := write_entry dest entry (root w) \<rparr>)"
| "run_tasks (Broken # ts) w = (Inl UncaughtStreamError, w \<lparr> pending := ts @ pending w \<rparr>)"

definition background :: "nat \<Rightarrow> unit io" where
  "background n w = run_tasks (take n (pending w)) (w \<lparr> pending := drop n (pending w) \<rparr>)"

definition start_tasks :: "task list \<Rightarrow> unit io" where
  "start_tasks ts = (\<lambda>w. (Inr (), w \<lparr> pending := pending w @ ts \<rparr>))"

text \<open>When the program has returned, the process lives on until nothing is pending.\<close>

definition drain :: "unit io" where
  "drain w = background (length (pending w)) w"

fun io_forEach :: "'a list \<Rightarrow> ('a \<Rightarrow> unit io) \<Rightarrow> unit io" where
  "io_forEach [] f = io_return ()"
| "io_forEach (x # xs) f = io_then (f x) (io_forEach xs f)"

fun io_fold :: "('a \<Rightarrow> 's \<Rightarrow> 's io) \<Rightarrow> 'a list \<Rightarrow> 's \<Rightarrow> 's io" where
  "io_fold f [] s = io_return s"
| "io_fold f (x # xs) s = io_bind (f x s) (io_fold f xs)"

subsection \<open>File-system calls on path strings\<close>

definition existsSync :: "env \<Rightarrow> string \<Rightarrow> world \<Rightarrow> bool" where
  "existsSync e p w = (stat (root w) (resolve (cwd e) p) \<noteq> None)"

definition io_exists :: "env \<Rightarrow> string \<Rightarrow> bool io" where
  "io_exists e p = (\<lambda>w. (Inr (existsSync e p w), w))"

definition mkdirSync_recursive :: "env \<Rightarrow> string \<Rightarrow> unit io" where
  "mkdirSync_recursive e p = fs_call (mkdir_p (resolve (cwd e) p))"

definition rmSync_recursive_force :: "env \<Rightarrow> string \<Rightarrow> unit io" where
  "rmSync_recursive_force e p = fs_call (rm_rf (resolve (cwd e) p))"

definition rmSync :: "env \<Rightarrow> string \<Rightarrow> unit io" where
  "rmSync e p = fs_call (rm_file (resolve (cwd e) p))"

definition symlinkSync :: "env \<Rightarrow> string \<Rightarrow> string \<Rightarrow> unit io" where
  "symlinkSync e target p = fs_call (symlink target (resolve (cwd e) p))"

text \<open>Reading a file: its size and content.\<close>

definition readFile :: "env \<Rightarrow> string \<Rightarrow> (nat \<times> content) io" where
  "readFile e p =
     (\<lambda>w. case stat (root w) (resolve (cwd e) p) of
         None \<Rightarrow> (Inl (FsError ''ENOENT''), w)
       | Some (File sz c) \<Rightarrow> (Inr (sz, c), w)
       | Some (Dir es) \<Rightarrow> (Inl (FsError ''EISDIR''), w)
       | Some n \<Rightarrow> (Inl (FsError ''EINVAL''), w))"

text \<open>\<open>await fetch(url)\<close>\<close>

definition io_wait :: "env \<Rightarrow> wait \<Rightarrow> unit io" where
  "io_wait e wt = background (progress e wt)"

definition do_fetch :: "env \<Rightarrow> string \<Rightarrow> response io" where
  "do_fetch e url =
     io_then (log_event (Fetched url))
       (io_then (io_wait e (WaitFetch url))
          (case fetch e url of None \<Rightarrow> io_throw FetchError | Some res \<Rightarrow> io_return res))"

section \<open>The registry client\<close>

record NpmClient =
  registryUrl :: string
  workingDir :: string
  cacheable :: bool

definition cacheDir :: string where
  "cacheDir = path_join [''.gpm'', ''cache'']"

text \<open>The constructor. The defaults of its last two parameters are given by the caller.\<close>

definition new_NpmClient :: "env \<Rightarrow> string \<Rightarrow> string \<Rightarrow> bool \<Rightarrow> NpmClient io" where
  "new_NpmClient e url dir cache =
     (let this = \<lparr> registryUrl = url, workingDir = dir, cacheable = cache \<rparr>
      in if cacheable this
         then io_bind (io_exists e cacheDir)
                (\<lambda>found.
                   io_then (io_when found
                              (rmSync_recursive_force e (path_join [workingDir this, cacheDir])))
                     (io_then (mkdirSync_recursive e (path_join [workingDir this, cacheDir]))
                        (io_return this)))
         else io_return this)"

definition readPackageInfoCache :: "env \<Rightarrow> NpmClient \<Rightarrow> string \<Rightarrow> PackageResponse option io" where
  "readPackageInfoCache e this packageName =
     (let cacheFilePath = path_join [workingDir this, cacheDir, packageName @ ''.json'']
      in io_bind (io_exists e cacheFilePath)
           (\<lambda>found.
              if found
              then io_bind (readFile e cacheFilePath)
                     (\<lambda>(sz, c). case c of MetadataJson m \<Rightarrow> io_return (Some m)
                                | _ \<Rightarrow> io_throw SyntaxError)
              else io_return None))"

definition writePackageInfoCache :: "env \<Rightarrow> NpmClient \<Rightarrow> string \<Rightarrow> PackageResponse \<Rightarrow> unit io" where
  "writePackageInfoCache e this packageName packageResponse =
     (let cacheFilePath = path_join [workingDir this, cacheDir, packageName @ ''.json'']
      in io_then (mkdirSync_recursive e (path_dirname cacheFilePath))
           (fs_call (write_file (resolve (cwd e) cacheFilePath)
                       (json_length e packageResponse) (MetadataJson packageResponse))))"

definition downloadPackageInfo :: "env \<Rightarrow> NpmClient \<Rightarrow> string \<Rightarrow> PackageResponse io" where
  "downloadPackageInfo e this packageName =
     (let packageUrl = registryUrl this @ ''/'' @ packageName
      in io_bind (do_fetch e packageUrl)
           (\<lambda>res. if \<not> ok res
                   then io_throw (Error (''Failed to download package: '' @ statusText res))
                   else io_then (io_wait e (WaitBody packageUrl))
                          (case body res of MetadataJson m \<Rightarrow> io_return m
                           | _ \<Rightarrow> io_throw SyntaxError)))"

definition getPackage :: "env \<Rightarrow> NpmClient \<Rightarrow> string \<Rightarrow> PackageResponse io" where
  "getPackage e this packageName =
     io_bind (if cacheable this then readPackageInfoCache e this packageName else io_return None)
       (\<lambda>cached. case cached of
           Some packageResponse \<Rightarrow> io_return packageResponse
         | None \<Rightarrow>
             io_bind (downloadPackageInfo e this packageName)
               (\<lambda>packageResponse.
                  io_then (io_when (cacheable this)
                             (writePackageInfoCache e this packageName packageResponse))
                    (io_return packageResponse)))"

text \<open>\<open>getFileHash\<close> and \<open>isFileValid\<close>: an error of the read stream rejects the promise.\<close>

definition getFileHash :: "env \<Rightarrow> string \<Rightarrow> string io" where
  "getFileHash e p =
     io_then (io_wait e (WaitHash p))
       (io_bind (readFile e p)
          (\<lambda>(sz, c). if read_fails e Hashing (resolve (cwd e) p) then io_throw StreamError
                     else io_return (sha1 e c)))"

definition isFileValid :: "env \<Rightarrow> string \<Rightarrow> string \<Rightarrow> bool io" where
  "isFileValid e p expectedShaSum =
     io_bind (getFileHash e p) (\<lambda>fileHash. io_return (fileHash = expectedShaSum))"

text \<open>
  \<open>unpackModule\<close>: a read stream on the archive is piped into the unzip stream and that
  into the tar extraction below \<open>destDir\<close>. Both handlers of the promise are on the read
  stream: the promise is rejected when the read stream ends in an error and resolves
  when the read stream is closed. The unpacking itself is started and goes on in the
  background; neither its end nor its errors reach the promise. A failing read stream
  is taken to fail before it has delivered data.
\<close>

definition unpackModule :: "env \<Rightarrow> string \<Rightarrow> string \<Rightarrow> unit io" where
  "unpackModule e srcFile destDir =
     io_then (log_event (UnpackModule srcFile))
       (io_bind (readFile e srcFile)
          (\<lambda>(sz, c).
             if read_fails e Unpacking (resolve (cwd e) srcFile) then io_throw StreamError
             else io_then (start_tasks (tasks_of (resolve (cwd e) destDir) c))
                    (io_wait e (WaitUnpack srcFile))))"

definition undefined_property :: "string \<Rightarrow> error" where
  "undefined_property field =
     TypeError (''Cannot read properties of undefined (reading '' @ [CHR 0x27] @ field @ [CHR 0x27] @ '')'')"

text \<open>
  \<open>downloadModule\<close> in two halves: \<open>fetchArchive\<close> is the body up to the point where the
  response has been written to the archive file, \<open>checkAndUnpack\<close> the rest, from the
  digest comparison on.
\<close>

definition archiveFilePath :: "VersionResponse \<Rightarrow> string \<Rightarrow> string" where
  "archiveFilePath v destinationDir =
     (let fileUrl = tarball (v_dist v);
          fileName = path_basename fileUrl
      in path_join [destinationDir, fileName])"

definition incorrect_hash :: "VersionResponse \<Rightarrow> error" where
  "incorrect_hash v =
     Error (''Downloaded file \"'' @ path_basename (tarball (v_dist v)) @ ''\" has incorrect hash'')"

definition fetchArchive :: "env \<Rightarrow> VersionResponse \<Rightarrow> string \<Rightarrow> unit io" where
  "fetchArchive e v destinationDir =
     (let fileUrl = tarball (v_dist v);
          destinationFilePath = archiveFilePath v destinationDir
      in io_bind (io_exists e destinationDir)
               (\<lambda>dirFound.
          io_then (io_when (\<not> dirFound) (mkdirSync_recursive e destinationDir))
         (io_bind (io_exists e destinationFilePath)
               (\<lambda>fileFound.
          io_then (io_when fileFound (rmSync e destinationFilePath))
         (io_bind (do_fetch e fileUrl)
               (\<lambda>res.
          io_then (io_wait e (WaitBody fileUrl))
            (fs_call (create_exclusive (resolve (cwd e) destinationFilePath)
                        (body_size res) (body res)))))))))"

definition checkAndUnpack :: "env \<Rightarrow> VersionResponse \<Rightarrow> string \<Rightarrow> unit io" where
  "checkAndUnpack e v destinationDir =
     (let destinationFilePath = archiveFilePath v destinationDir
      in io_bind (isFileValid e destinationFilePath (shasum (v_dist v)))
           (\<lambda>valid.
              if \<not> valid
              then io_then (rmSync e destinationFilePath) (io_throw (incorrect_hash v))
              else io_then (unpackModule e destinationFilePath destinationDir)
                     (rmSync e destinationFilePath)))"

definition downloadModule :: "env \<Rightarrow> VersionResponse option \<Rightarrow> string \<Rightarrow> unit io" where
  "downloadModule e version destinationDir =
     io_then (log_event (DownloadModule destinationDir))
       (case version of
          None \<Rightarrow> io_throw (undefined_property ''dist'')
        | Some v \<Rightarrow>
            io_then (fetchArchive e v destinationDir) (checkAndUnpack e v destinationDir))"

definition redownloadModule :: "env \<Rightarrow> VersionResponse option \<Rightarrow> string \<Rightarrow> unit io" where
  "redownloadModule e version destinationDir =
     io_then (log_event (RedownloadModule destinationDir))
     (case version of
        None \<Rightarrow> io_throw (undefined_property ''name'')
      | Some v \<Rightarrow>
          io_then (rmSync_recursive_force e destinationDir)
            (downloadModule e version destinationDir))"

text \<open>\<open>getFolderStat(dir)\<close> on a path, and \<open>isModuleValid\<close>.\<close>

definition getFolderStat_at :: "env \<Rightarrow> string \<Rightarrow> FolderStat io" where
  "getFolderStat_at e dir =
     (\<lambda>w. case lstat (root w) (resolve (cwd e) dir) of
         None \<Rightarrow> (Inl (FsError ''ENOENT''), w)
       | Some n \<Rightarrow> (getFolderStat n, w))"

definition isModuleValid :: "env \<Rightarrow> VersionResponse option \<Rightarrow> string \<Rightarrow> bool io" where
  "isModuleValid e version destinationDir =
     io_bind (getFolderStat_at e destinationDir)
       (\<lambda>folderStat. case version of
            None \<Rightarrow> io_throw (undefined_property ''dist'')
          | Some v \<Rightarrow> io_return (fileCount folderStat = dist_fileCount (v_dist v)
                                 \<and> totalSize folderStat = unpackedSize (v_dist v)))"

definition linkBin :: "env \<Rightarrow> string \<Rightarrow> string \<Rightarrow> string \<Rightarrow> string \<Rightarrow> unit io" where
  "linkBin e moduleDirPath binDirPath binFile target =
     (let srcModuleBinFilePath = path_normalize (path_join [moduleDirPath, target]);
          destModuleBinFilePath = path_join [binDirPath, binFile];
          relativeBinPath = path_relative (cwd e) binDirPath srcModuleBinFilePath
      in symlinkSync e relativeBinPath destModuleBinFilePath)"

definition symlinkBinFiles :: "env \<Rightarrow> VersionResponse option \<Rightarrow> string \<Rightarrow> string \<Rightarrow> unit io" where
  "symlinkBinFiles e version moduleDirPath binDirPath =
     (case version of
        None \<Rightarrow> io_throw (undefined_property ''bin'')
      | Some v \<Rightarrow>
          (case v_bin v of
             None \<Rightarrow> io_return ()
           | Some (BinPath p) \<Rightarrow>
               if p = [] then io_return ()
               else io_bind (io_exists e binDirPath)
                      (\<lambda>found.
                         io_then (io_when (\<not> found) (mkdirSync_recursive e binDirPath))
                           (linkBin e moduleDirPath binDirPath (v_name v) p))
           | Some (BinMap m) \<Rightarrow>
               io_bind (io_exists e binDirPath)
                 (\<lambda>found.
                    io_then (io_when (\<not> found) (mkdirSync_recursive e binDirPath))
                      (io_forEach m (\<lambda>(binFile, target).
                          linkBin e moduleDirPath binDirPath binFile target)))))"

section \<open>The installation orchestrator\<close>

definition PACKAGE_FILE_NAME :: string where
  "PACKAGE_FILE_NAME = ''package.json''"

definition NODE_MODULES_DIR_NAME :: string where
  "NODE_MODULES_DIR_NAME = ''node_modules''"

definition WORKING_DIRECTORY :: "env \<Rightarrow> string" where
  "WORKING_DIRECTORY e = CHR ''/'' # join_with ''/'' (cwd e)"

definition PACKAGE_JSON_PATH :: "env \<Rightarrow> string" where
  "PACKAGE_JSON_PATH e = path_join [WORKING_DIRECTORY e, PACKAGE_FILE_NAME]"

definition NODE_MODULES_PATH :: "env \<Rightarrow> string" where
  "NODE_MODULES_PATH e = path_join [WORKING_DIRECTORY e, NODE_MODULES_DIR_NAME]"

definition NODE_MODULES_BIN_PATH :: "env \<Rightarrow> string" where
  "NODE_MODULES_BIN_PATH e = path_join [NODE_MODULES_PATH e, ''.bin'']"

definition readPackageJson :: "env \<Rightarrow> string \<Rightarrow> Package io" where
  "readPackageJson e packageJsonPath =
     io_bind (readFile e packageJsonPath)
       (\<lambda>(sz, c). case c of PackageJson p \<Rightarrow> io_return p | _ \<Rightarrow> io_throw SyntaxError)"

text \<open>
  The object spread \<open>{...a, ...b}\<close>: the keys of \<open>a\<close> in their order, with the value of
  \<open>b\<close> where \<open>b\<close> has the key too, then the keys only \<open>b\<close> has.
\<close>

definition spread :: "KeyValueType \<Rightarrow> KeyValueType \<Rightarrow> KeyValueType" where
  "spread a b =
     map (\<lambda>(k, v). (k, case map_of b k of None \<Rightarrow> v | Some v' \<Rightarrow> v')) a
     @ filter (\<lambda>(k, v). k \<notin> fst ` set a) b"

definition or_empty :: "KeyValueType option \<Rightarrow> KeyValueType" where
  "or_empty d = (case d of None \<Rightarrow> [] | Some kv \<Rightarrow> kv)"

definition getPackageDependencies :: "env \<Rightarrow> string \<Rightarrow> bool \<Rightarrow> KeyValueType io" where
  "getPackageDependencies e packageJsonPath prodOnly =
     io_bind (readPackageJson e packageJsonPath)
       (\<lambda>packageJsonObject.
          let dependencies = or_empty (p_dependencies packageJsonObject)
          in io_return (if \<not> prodOnly
                        then spread dependencies (or_empty (p_devDependencies packageJsonObject))
                        else dependencies))"

text \<open>
  The ledger \<open>processedDependencies\<close> is an object literal; \<open>processedDependencies[key]\<close>
  is tested for truthiness. An empty string is falsy, and a key the object does not own
  is looked up in \<open>Object.prototype\<close>, whose properties are truthy.
\<close>

definition object_prototype_keys :: "string list" where
  "object_prototype_keys =
     [''constructor'', ''__defineGetter__'', ''__defineSetter__'', ''hasOwnProperty'',
      ''__lookupGetter__'', ''__lookupSetter__'', ''isPrototypeOf'', ''propertyIsEnumerable'',
      ''toString'', ''valueOf'', ''__proto__'', ''toLocaleString'']"

definition already_processed :: "(string \<rightharpoonup> string) \<Rightarrow> string \<Rightarrow> bool" where
  "already_processed processedDependencies key =
     (case processedDependencies key of
        Some v \<Rightarrow> v \<noteq> []
      | None \<Rightarrow> key \<in> set object_prototype_keys)"

text \<open>
  The body of the \<open>for\<close> loop of \<open>installDependencies\<close> for one key of
  \<open>requiredDependencies\<close> with its value; the state of the loop is the ledger and
  \<open>requiredModuleDependencies\<close>.
\<close>

definition installDependency ::
  "env \<Rightarrow> NpmClient \<Rightarrow> string \<times> string \<Rightarrow> (string \<rightharpoonup> string) \<times> KeyValueType
     \<Rightarrow> ((string \<rightharpoonup> string) \<times> KeyValueType) io" where
  "installDependency e npmClient dep st =
     (case (dep, st) of ((key, required), (processedDependencies, requiredModuleDependencies)) \<Rightarrow>
      if already_processed processedDependencies key then io_return st
      else
        (let requiredModuleVersion = extractVersionFromVersion required;
             modulePackageDirPath = path_join [NODE_MODULES_PATH e, key];
             modulePackageJsonPath = path_join [modulePackageDirPath, PACKAGE_FILE_NAME];
             packageName = (if isVersionContainPackageName required
                            then extractPackageNameFromVersion required else key)
         in io_then (log_event (Processing key))
           (io_bind (getPackage e npmClient packageName)
              (\<lambda>packageResponse.
           io_bind (io_exists e modulePackageJsonPath)
              (\<lambda>installed.
           io_bind
             (if installed
              then
                io_bind (readPackageJson e modulePackageJsonPath)
                  (\<lambda>modulePackageJsonObject.
                     let moduleCurrentVersion =
                           lookup_key (versions packageResponse) (p_version modulePackageJsonObject)
                     in io_then
                          (if satisfies (semver_of e) (p_version modulePackageJsonObject)
                                requiredModuleVersion
                           then
                             io_bind (isModuleValid e moduleCurrentVersion modulePackageDirPath)
                               (\<lambda>valid.
                                  io_then (io_when (\<not> valid)
                                             (redownloadModule e moduleCurrentVersion modulePackageDirPath))
                                    (symlinkBinFiles e moduleCurrentVersion modulePackageDirPath
                                       (NODE_MODULES_BIN_PATH e)))
                           else
                             (let moduleNewVersion =
                                    maxSatisfying (semver_of e)
                                      (object_keys (versions packageResponse)) requiredModuleVersion
                              in io_then
                                   (redownloadModule e
                                      (index_nullable (versions packageResponse) moduleNewVersion)
                                      modulePackageDirPath)
                                   (symlinkBinFiles e
                                      (index_nullable (versions packageResponse) moduleNewVersion)
                                      modulePackageDirPath (NODE_MODULES_BIN_PATH e))))
                          (io_return (spread requiredModuleDependencies
                                        (or_empty (p_dependencies modulePackageJsonObject)))))
              else
                (let versionToDownload =
                       maxSatisfying (semver_of e)
                         (object_keys (versions packageResponse)) requiredModuleVersion;
                     moduleVersionToDownload =
                       index_nullable (versions packageResponse) versionToDownload
                 in io_then (downloadModule e moduleVersionToDownload modulePackageDirPath)
                      (io_then (symlinkBinFiles e moduleVersionToDownload modulePackageDirPath
                                  (NODE_MODULES_BIN_PATH e))
                         (io_return
                            (spread requiredModuleDependencies
                               (case moduleVersionToDownload of
                                  None \<Rightarrow> []
                                | Some v \<Rightarrow> or_empty (v_dependencies v)))))))
             (\<lambda>next.
                io_return (processedDependencies(key \<mapsto> requiredModuleVersion), next)))))))"

definition installDependencies ::
  "env \<Rightarrow> NpmClient \<Rightarrow> (string \<rightharpoonup> string) \<Rightarrow> KeyValueType
     \<Rightarrow> ((string \<rightharpoonup> string) \<times> KeyValueType) io" where
  "installDependencies e npmClient processedDependencies requiredDependencies =
     io_bind (io_exists e (NODE_MODULES_PATH e))
       (\<lambda>found.
          io_then (io_when (\<not> found) (mkdirSync_recursive e (NODE_MODULES_PATH e)))
            (io_fold (installDependency e npmClient) requiredDependencies
               (processedDependencies, [])))"

text \<open>
  The \<open>do ... while\<close> loop of \<open>installPackage\<close>. It may run forever; not returning is
  the value \<open>None\<close>.
\<close>

partial_function (option) install_levels ::
  "env \<Rightarrow> NpmClient \<Rightarrow> (string \<rightharpoonup> string) \<Rightarrow> KeyValueType \<Rightarrow> world
     \<Rightarrow> ((error + unit) \<times> world) option" where
  "install_levels e npmClient processedDependencies requiredModuleDependencies w =
     (case installDependencies e npmClient processedDependencies requiredModuleDependencies w of
        (Inl err, w') \<Rightarrow> Some (Inl err, w')
      | (Inr (processed', next), w') \<Rightarrow>
          if length (object_keys next) > 0
          then install_levels e npmClient processed' next w'
          else Some (Inr (), w'))"

declare install_levels.simps [code]

definition installPackage :: "env \<Rightarrow> NpmClient \<Rightarrow> bool \<Rightarrow> world \<Rightarrow> ((error + unit) \<times> world) option" where
  "installPackage e npmClient prodOnly w =
     (case getPackageDependencies e (path_join [WORKING_DIRECTORY e, PACKAGE_FILE_NAME]) prodOnly w of
        (Inl err, w') \<Rightarrow> Some (Inl err, w')
      | (Inr requiredDependencies, w') \<Rightarrow>
          (case installDependencies e npmClient Map.empty requiredDependencies w' of
             (Inl err, w'') \<Rightarrow> Some (Inl err, w'')
           | (Inr (processed', requiredModuleDependencies), w'') \<Rightarrow>
               install_levels e npmClient processed' requiredModuleDependencies w''))"

definition NPM_REGISTRY :: string where
  "NPM_REGISTRY = ''https://registry.npmjs.org''"

text \<open>
  One run of the \<open>install\<close> command: the client is constructed with its default
  arguments when the module is loaded, then \<open>installPackage\<close> runs, and when it has
  returned the pending unpacking is brought to its end.
\<close>

definition install_command :: "env \<Rightarrow> bool \<Rightarrow> world \<Rightarrow> ((error + unit) \<times> world) option" where
  "install_command e prodOnly w =
     (case new_NpmClient e NPM_REGISTRY (WORKING_DIRECTORY e) True w of
        (Inl err, w') \<Rightarrow> Some (Inl err, w')
      | (Inr npmClient, w') \<Rightarrow>
          (case installPackage e npmClient prodOnly w' of
             None \<Rightarrow> None
           | Some (Inl err, w'') \<Rightarrow> Some (Inl err, w'')
           | Some (Inr u, w'') \<Rightarrow> Some (drain w'')))"

text \<open>\<open>s.includes(t)\<close>\<close>

fun str_includes :: "string \<Rightarrow> string \<Rightarrow> bool" where
  "str_includes [] t = (t = [])"
| "str_includes (x # xs) t = (take (length t) (x # xs) = t \<or> str_includes xs t)"

section \<open>A small registry for concrete runs\<close>

text \<open>
  A registry is given by its packages: for each name the published versions, each with
  its dependencies. The archive of a version holds one file, the \<open>package.json\<close> of 10
  bytes with the same name, version and dependencies, and the registry declares the
  digest, file count and unpacked size of that archive. The network is slow and the disk
  is fast: the unpacking that is pending is done while the program waits for the
  network, and none of it while the program waits for a read stream on a local file.
\<close>

type_synonym registry = "(string \<times> (string \<times> KeyValueType) list) list"

definition descriptor_of :: "string \<Rightarrow> string \<Rightarrow> KeyValueType \<Rightarrow> Package" where
  "descriptor_of n v deps =
     \<lparr> p_name = n, p_version = v, p_dependencies = Some deps, p_devDependencies = None \<rparr>"

definition archive_of :: "string \<Rightarrow> string \<Rightarrow> KeyValueType \<Rightarrow> content" where
  "archive_of n v deps = Archive [([''package.json''], 10, PackageJson (descriptor_of n v deps))]"

definition digest_of :: "string \<Rightarrow> string \<Rightarrow> string" where
  "digest_of n v = ''sha-'' @ n @ ''-'' @ v"

definition tarball_url :: "string \<Rightarrow> string \<Rightarrow> string" where
  "tarball_url n v = NPM_REGISTRY @ ''/'' @ n @ ''/-/'' @ n @ ''-'' @ v @ ''.tgz''"

definition version_of :: "string \<Rightarrow> string \<Rightarrow> KeyValueType \<Rightarrow> VersionResponse" where
  "version_of n v deps =
     \<lparr> v_name = n, v_version = v, v_dependencies = Some deps,
       v_dist = \<lparr> shasum = digest_of n v, tarball = tarball_url n v,
                  dist_fileCount = 1, unpackedSize = 10 \<rparr>,
       v_bin = None \<rparr>"

definition metadata_of :: "string \<Rightarrow> (string \<times> KeyValueType) list \<Rightarrow> PackageResponse" where
  "metadata_of n vs = \<lparr> r_name = n, versions = map (\<lambda>(v, deps). (v, version_of n v deps)) vs \<rparr>"

definition found :: "nat \<Rightarrow> content \<Rightarrow> response" where
  "found sz c = \<lparr> ok = True, status = 200, statusText = ''OK'', body_size = sz, body = c \<rparr>"

definition not_found :: response where
  "not_found = \<lparr> ok = False, status = 404, statusText = ''Not Found'', body_size = 0, body = Opaque \<rparr>"

definition registry_urls :: "registry \<Rightarrow> (string \<times> response) list" where
  "registry_urls reg =
     concat (map (\<lambda>(n, vs).
        (NPM_REGISTRY @ ''/'' @ n, found 500 (MetadataJson (metadata_of n vs)))
        # map (\<lambda>(v, deps). (tarball_url n v, found 100 (archive_of n v deps))) vs) reg)"

fun example_sha1 :: "content \<Rightarrow> string" where
  "example_sha1 (Archive [(p, sz, PackageJson d)]) = digest_of (p_name d) (p_version d)"
| "example_sha1 c = ''da39a3ee5e6b4b0d3255bfef95601890afd80709''"

definition registry_env :: "registry \<Rightarrow> env" where
  "registry_env reg =
     \<lparr> cwd = [''proj''],
       fetch = (\<lambda>url. case map_of (registry_urls reg) url of
                         None \<Rightarrow> Some not_found
                       | Some res \<Rightarrow> Some res),
       sha1 = example_sha1,
       json_length = (\<lambda>m. 500),
       semver_of = semver_lib,
       read_fails = (\<lambda>use p. False),
       progress = (\<lambda>wt. case wt of WaitFetch url \<Rightarrow> 1000 | WaitBody url \<Rightarrow> 1000
                           | WaitHash p \<Rightarrow> 0 | WaitUnpack p \<Rightarrow> 0) \<rparr>"

definition manifest :: "KeyValueType \<Rightarrow> node" where
  "manifest deps = File 80 (PackageJson (descriptor_of ''proj'' ''0.0.0'' deps))"

definition installed_module :: "string \<Rightarrow> string \<Rightarrow> KeyValueType \<Rightarrow> node" where
  "installed_module n v deps = Dir [(''package.json'', File 10 (PackageJson (descriptor_of n v deps)))]"

definition default_client :: NpmClient where
  "default_client = \<lparr> registryUrl = NPM_REGISTRY, workingDir = ''/proj'', cacheable = True \<rparr>"

subsection \<open>A dependency cycle with empty range strings\<close>

text \<open>
  The manifest requires \<open>a\<close>, \<open>a\<close> requires \<open>b\<close> and \<open>b\<close> requires \<open>a\<close>, each with the
  empty range string, which the semver library reads as any version. \<open>cycle_root\<close> is
  the directory tree once both are installed.
\<close>

definition cycle_registry :: registry where
  "cycle_registry = [(''a'', [(''1.0.0'', [(''b'', '''')])]), (''b'', [(''1.0.0'', [(''a'', '''')])])]"

definition cycle_world :: world where
  "cycle_world =
     \<lparr> root = Dir [(''proj'', Dir [(''package.json'', manifest [(''a'', '''')])])], trace = [], pending = [] \<rparr>"

definition cycle_root :: node where
  "cycle_root =
     Dir [(''proj'',
       Dir [(''package.json'', manifest [(''a'', '''')]),
            (''.gpm'',
             Dir [(''cache'',
                   Dir [(''a.json'', File 500 (MetadataJson (metadata_of ''a'' [(''1.0.0'', [(''b'', '''')])]))),
                        (''b.json'', File 500 (MetadataJson (metadata_of ''b'' [(''1.0.0'', [(''a'', '''')])])))])]),
            (''node_modules'',
             Dir [(''a'', installed_module ''a'' ''1.0.0'' [(''b'', '''')]),
                  (''b'', installed_module ''b'' ''1.0.0'' [(''a'', '''')])])])]"

text \<open>
  The trees the run passes through before it reaches \<open>cycle_root\<close>: the cache
  directory is there and empty; \<open>a\<close> has been downloaded and is not yet unpacked;
  \<open>a\<close> is unpacked and \<open>b\<close> has been downloaded and is not yet unpacked.
\<close>

definition cycle_root_0 :: node where
  "cycle_root_0 =
     Dir [(''proj'', Dir [(''package.json'', manifest [(''a'', '''')]),
                          (''.gpm'', Dir [(''cache'', Dir [])])])]"

definition cycle_root_1 :: node where
  "cycle_root_1 =
     Dir [(''proj'',
       Dir [(''package.json'', manifest [(''a'', '''')]),
            (''.gpm'',
             Dir [(''cache'',
                   Dir [(''a.json'', File 500 (MetadataJson (metadata_of ''a'' [(''1.0.0'', [(''b'', '''')])])))])]),
            (''node_modules'', Dir [(''a'', Dir [])])])]"

definition cycle_root_2 :: node where
  "cycle_root_2 =
     Dir [(''proj'',
       Dir [(''package.json'', manifest [(''a'', '''')]),
            (''.gpm'',
             Dir [(''cache'',
                   Dir [(''a.json'', File 500 (MetadataJson (metadata_of ''a'' [(''1.0.0'', [(''b'', '''')])]))),
                        (''b.json'', File 500 (MetadataJson (metadata_of ''b'' [(''1.0.0'', [(''a'', '''')])])))])]),
            (''node_modules'',
             Dir [(''a'', installed_module ''a'' ''1.0.0'' [(''b'', '''')]),
                  (''b'', Dir [])])])]"

definition in_cycle :: "env \<Rightarrow> NpmClient \<Rightarrow> (string \<rightharpoonup> string) \<Rightarrow> KeyValueType \<Rightarrow> world \<Rightarrow> bool" where
  "in_cycle e c l r w =
     (e = registry_env cycle_registry \<and> c = default_client
      \<and> l ''a'' = Some '''' \<and> l ''b'' = Some ''''
      \<and> (r = [(''a'', '''')] \<or> r = [(''b'', '''')]) \<and> root w = cycle_root)"

subsection \<open>An installed module that has to be upgraded\<close>

text \<open>
  The registry has \<open>x\<close> 1.0.0, which requires \<open>a\<close>, and \<open>x\<close> 2.0.0, which requires \<open>b\<close>.
  The project requires \<open>x\<close> in the range \<open>^2.0.0\<close> and has \<open>x\<close> 1.0.0 installed.
\<close>

definition upgrade_registry :: registry where
  "upgrade_registry =
     [(''x'', [(''1.0.0'', [(''a'', ''1.0.0'')]), (''2.0.0'', [(''b'', ''1.0.0'')])]),
      (''a'', [(''1.0.0'', [])]),
      (''b'', [(''1.0.0'', [])])]"

definition upgrade_world :: world where
  "upgrade_world =
     \<lparr> root = Dir [(''proj'',
                Dir [(''package.json'', manifest [(''x'', ''^2.0.0'')]),
                     (''node_modules'',
                      Dir [(''x'', installed_module ''x'' ''1.0.0'' [(''a'', ''1.0.0'')])])])],
       trace = [], pending = [] \<rparr>"

definition cached :: "registry \<Rightarrow> string \<Rightarrow> string \<times> node" where
  "cached reg n = (n @ ''.json'', File 500 (MetadataJson (metadata_of n (case map_of reg n of None \<Rightarrow> [] | Some vs \<Rightarrow> vs))))"

definition after_first_run :: world where
  "after_first_run =
     \<lparr> root = Dir [(''proj'',
                Dir [(''package.json'', manifest [(''x'', ''^2.0.0'')]),
                     (''node_modules'',
                      Dir [(''x'', installed_module ''x'' ''2.0.0'' [(''b'', ''1.0.0'')]),
                           (''a'', installed_module ''a'' ''1.0.0'' [])]),
                     (''.gpm'', Dir [(''cache'', Dir [cached upgrade_registry ''x'',
                                                      cached upgrade_registry ''a''])])])],
       trace = [Processing ''x'', Fetched ''https://registry.npmjs.org/x'',
                RedownloadModule ''/proj/node_modules/x'',
                DownloadModule ''/proj/node_modules/x'',
                Fetched ''https://registry.npmjs.org/x/-/x-2.0.0.tgz'',
                UnpackModule ''/proj/node_modules/x/x-2.0.0.tgz'',
                Processing ''a'', Fetched ''https://registry.npmjs.org/a'',
                DownloadModule ''/proj/node_modules/a'',
                Fetched ''https://registry.npmjs.org/a/-/a-1.0.0.tgz'',
                UnpackModule ''/proj/node_modules/a/a-1.0.0.tgz''],
       pending = [] \<rparr>"

definition after_second_run :: world where
  "after_second_run =
     \<lparr> root = Dir [(''proj'',
                Dir [(''package.json'', manifest [(''x'', ''^2.0.0'')]),
                     (''node_modules'',
                      Dir [(''x'', installed_module ''x'' ''2.0.0'' [(''b'', ''1.0.0'')]),
                           (''a'', installed_module ''a'' ''1.0.0'' []),
                           (''b'', installed_module ''b'' ''1.0.0'' [])]),
                     (''.gpm'', Dir [(''cache'', Dir [cached upgrade_registry ''x'',
                                                      cached upgrade_registry ''b''])])])],
       trace = trace after_first_run
               @ [Processing ''x'', Fetched ''https://registry.npmjs.org/x'',
                  Processing ''b'', Fetched ''https://registry.npmjs.org/b'',
                  DownloadModule ''/proj/node_modules/b'',
                  Fetched ''https://registry.npmjs.org/b/-/b-1.0.0.tgz'',
                  UnpackModule ''/proj/node_modules/b/b-1.0.0.tgz''],
       pending = [] \<rparr>"

text \<open>
  The step of unpacking that writes the \<open>package.json\<close> of a version into its module
  directory.
\<close>

definition unpacking :: "string \<Rightarrow> string \<Rightarrow> KeyValueType \<Rightarrow> task" where
  "unpacking n v deps =
     WriteEntry [''proj'', ''node_modules'', n]
       ([''package.json''], 10, PackageJson (descriptor_of n v deps))"

definition after_upgrade :: world where
  "after_upgrade =
     \<lparr> root = Dir [(''proj'',
                Dir [(''package.json'', manifest [(''x'', ''^2.0.0'')]),
                     (''node_modules'', Dir [(''x'', Dir [])]),
                     (''.gpm'', Dir [(''cache'', Dir [cached upgrade_registry ''x''])])])],
       trace = [Processing ''x'', Fetched ''https://registry.npmjs.org/x'',
                RedownloadModule ''/proj/node_modules/x'',
                DownloadModule ''/proj/node_modules/x'',
                Fetched ''https://registry.npmjs.org/x/-/x-2.0.0.tgz'',
                UnpackModule ''/proj/node_modules/x/x-2.0.0.tgz''],
       pending = [unpacking ''x'' ''2.0.0'' [(''b'', ''1.0.0'')]] \<rparr>"

definition after_upgrade_unpacked :: world where
  "after_upgrade_unpacked =
     after_upgrade
       \<lparr> root := Dir [(''proj'',
                Dir [(''package.json'', manifest [(''x'', ''^2.0.0'')]),
                     (''node_modules'',
                      Dir [(''x'', installed_module ''x'' ''2.0.0'' [(''b'', ''1.0.0'')])]),
                     (''.gpm'', Dir [(''cache'', Dir [cached upgrade_registry ''x''])])])],
         pending := [] \<rparr>"

subsection \<open>A working directory that is not the current directory\<close>

text \<open>
  The process runs in \<open>/proj\<close>, which has no cache directory; the client is given the
  working directory \<open>/other\<close>, whose cache holds a document from an earlier run.
\<close>

definition stale_world :: world where
  "stale_world =
     \<lparr> root = Dir [(''proj'', Dir []),
                    (''other'', Dir [(''.gpm'', Dir [(''cache'', Dir [cached upgrade_registry ''x''])])])],
       trace = [], pending = [] \<rparr>"

subsection \<open>A package the registry does not have, and a range nothing satisfies\<close>

definition empty_project :: world where
  "empty_project = \<lparr> root = Dir [(''proj'', Dir [])], trace = [], pending = [] \<rparr>"

definition leftpad_registry :: registry where
  "leftpad_registry = [(''left-pad'', [(''1.0.0'', []), (''1.3.0'', [])])]"

definition leftpad_project :: world where
  "leftpad_project =
     \<lparr> root = Dir [(''proj'', Dir [(''package.json'', manifest [(''left-pad'', ''^9.0.0'')])])],
       trace = [], pending = [] \<rparr>"

definition leftpad_failed :: world where
  "leftpad_failed =
     \<lparr> root = Dir [(''proj'',
                Dir [(''package.json'', manifest [(''left-pad'', ''^9.0.0'')]),
                     (''.gpm'', Dir [(''cache'', Dir [cached leftpad_registry ''left-pad''])]),
                     (''node_modules'', Dir [])])],
       trace = [Processing ''left-pad'', Fetched ''https://registry.npmjs.org/left-pad'',
                DownloadModule ''/proj/node_modules/left-pad''],
       pending = [] \<rparr>"

text \<open>
  The same project with a directory \<open>node_modules/left-pad\<close> that holds the given
  entries, and descriptors of \<open>left-pad\<close> in a version that is not published.
\<close>

definition leftpad_installed :: "(string \<times> node) list \<Rightarrow> world" where
  "leftpad_installed module_entries =
     \<lparr> root = Dir [(''proj'',
                Dir [(''package.json'', manifest [(''left-pad'', ''^9.0.0'')]),
                     (''node_modules'', Dir [(''left-pad'', Dir module_entries)])])],
       trace = [], pending = [] \<rparr>"

definition leftpad_descriptor :: "string \<Rightarrow> string \<times> node" where
  "leftpad_descriptor v = (''package.json'', File 10 (PackageJson (descriptor_of ''left-pad'' v [])))"

definition leftpad_looked_up :: "(string \<times> node) list \<Rightarrow> event list \<Rightarrow> world" where
  "leftpad_looked_up module_entries events =
     \<lparr> root = Dir [(''proj'',
                Dir [(''package.json'', manifest [(''left-pad'', ''^9.0.0'')]),
                     (''node_modules'', Dir [(''left-pad'', Dir module_entries)]),
                     (''.gpm'', Dir [(''cache'', Dir [cached leftpad_registry ''left-pad''])])])],
       trace = [Processing ''left-pad'', Fetched ''https://registry.npmjs.org/left-pad''] @ events,
       pending = [] \<rparr>"

subsection \<open>Downloads of one archive\<close>

text \<open>
  The version \<open>a\<close> 1.0.0 of the registry above is downloaded into an empty project:
  from the registry itself; from a registry that answers the archive request with the
  archive of another package; from the registry itself while the read stream opened for
  unpacking fails; and, with the digest of the empty file declared, from a registry that
  answers with an empty body, which is no archive.
\<close>

definition a_version :: VersionResponse where
  "a_version = version_of ''a'' ''1.0.0'' []"







definition download_trace :: "event list" where
  "download_trace =
     [DownloadModule ''/proj/node_modules/a'',
      Fetched ''https://registry.npmjs.org/a/-/a-1.0.0.tgz'']"

definition project_with :: "(string \<times> node) list \<Rightarrow> node" where
  "project_with module_entries =
     Dir [(''proj'', Dir [(''node_modules'', Dir [(''a'', Dir module_entries)])])]"

section \<open>Properties of the helpers\<close>

lemma js_split_nonempty: "js_split c s \<noteq> []"
  by (induction s) (auto split: list.splits)





lemma override_parsing:
  "extractPackageNameFromVersion ''scope:real-name@^2.0.0'' = ''real-name''"
  "extractVersionFromVersion ''scope:real-name@^2.0.0'' = ''^2.0.0''"
  "isVersionContainPackageName ''scope:real-name@^2.0.0''"
  "\<not> isVersionContainPackageName ''^2.0.0''"
  by (simp_all add: extractPackageNameFromVersion_def extractVersionFromVersion_def
      isVersionContainPackageName_def)

text \<open>
  The helpers cut at every \<open>@\<close>: a name that itself starts with \<open>@\<close> is not stripped as
  a prefix, the result is the text between the first two separators.
\<close>

lemma getSanitizedVersion_of_at_scoped_name:
  "getSanitizedVersion ''@scope/pkg@^1.0.0'' = ''scope/pkg''"
  by (simp add: getSanitizedVersion_def)

text \<open>
  C10. \<open>getSanitizedVersion\<close> and \<open>extractVersionFromVersion\<close> return the same string on
  every input.
\<close>

theorem getSanitizedVersion_eq_extractVersionFromVersion:
  "getSanitizedVersion v = extractVersionFromVersion v"
  by (simp add: getSanitizedVersion_def extractVersionFromVersion_def)

section \<open>Range resolution\<close>




lemma maxSatisfying_none:
  "\<forall>u \<in> set vs. \<not> satisfies sv u rng \<Longrightarrow> fold (maxStep sv rng) vs mx = mx"
  by (induction vs arbitrary: mx) (auto simp: maxStep_def)





text \<open>
  Every string has one of three shapes: no \<open>@\<close>; one \<open>@\<close>; a first \<open>@\<close>, a second
  \<open>@\<close>, and any text behind it.
\<close>

lemma range_string_shapes:
  "CHR ''@'' \<notin> set s
   \<or> (\<exists>n r. s = n @ ''@'' @ r \<and> CHR ''@'' \<notin> set n \<and> CHR ''@'' \<notin> set r)
   \<or> (\<exists>n r t. s = n @ ''@'' @ r @ ''@'' @ t \<and> CHR ''@'' \<notin> set n \<and> CHR ''@'' \<notin> set r)"
proof (cases "CHR ''@'' \<in> set s")
  case False
  then show ?thesis by simp
next
  case True
  then obtain n u where s: "s = n @ CHR ''@'' # u" and n: "CHR ''@'' \<notin> set n"
    by (auto dest: split_list_first)
  show ?thesis
  proof (cases "CHR ''@'' \<in> set u")
    case False
    from s have "s = n @ ''@'' @ u" by simp
    with n False have "\<exists>n r. s = n @ ''@'' @ r \<and> CHR ''@'' \<notin> set n \<and> CHR ''@'' \<notin> set r"
      by blast
    then show ?thesis by blast
  next
    case True
    then obtain r t where u: "u = r @ CHR ''@'' # t" and r: "CHR ''@'' \<notin> set r"
      by (auto dest: split_list_first)
    from s u have "s = n @ ''@'' @ r @ ''@'' @ t" by simp
    with n r have "\<exists>n r t. s = n @ ''@'' @ r @ ''@'' @ t \<and> CHR ''@'' \<notin> set n \<and> CHR ''@'' \<notin> set r"
      by blast
    then show ?thesis by blast
  qed
qed




section \<open>Properties of the directory census\<close>

lemma addFolderStat_no_files [simp]: "addFolderStat (a :: FolderStat) no_files = a"
  by (simp add: addFolderStat_def no_files_def)

lemma addFolderStat_no_files_left [simp]: "addFolderStat no_files (a :: FolderStat) = a"
  by (cases a) (simp add: addFolderStat_def no_files_def)

lemma addFolderStat_assoc:
  "addFolderStat (addFolderStat (a :: FolderStat) b) c = addFolderStat a (addFolderStat b c)"
  by (simp add: addFolderStat_def)

lemma addFileStat_file:
  "addFileStat (a :: FolderStat) (stats_of (File sz c)) = addFolderStat a \<lparr> fileCount = 1, totalSize = sz \<rparr>"
  by (simp add: addFileStat_def addFolderStat_def)

lemma addFileStat_other:
  "addFileStat (a :: FolderStat) (stats_of (Dir es)) = a"
  "addFileStat (a :: FolderStat) (stats_of Special) = a"
  by (simp_all add: addFileStat_def)

lemma census_followed:
  "getFolderStat n =
     (case followed n of
        None \<Rightarrow> Inl (FsError ''ENOENT'')
      | Some (Dir es) \<Rightarrow> Inr (spec_census (Dir es))
      | Some _ \<Rightarrow> Inl (FsError ''ENOTDIR''))"
  "walk es (acc :: FolderStat) =
     (case followed_entries es of
        None \<Rightarrow> Inl (FsError ''ENOENT'')
      | Some es' \<Rightarrow> Inr (addFolderStat acc (spec_census_entries es')))"
proof (induction n and es acc rule: getFolderStat_walk.induct)
  case (1 es)
  then show ?case by (simp add: no_files_def[symmetric] split: option.splits)
qed (auto simp add: addFileStat_def addFolderStat_def no_files_def ac_simps
      split: option.splits node.splits sum.splits)

lemma followed_link_free:
  "link_free n \<Longrightarrow> followed n = Some n"
  "link_free_entries es \<Longrightarrow> followed_entries es = Some es"
  by (induction n and es rule: link_free_link_free_entries.induct) auto

text \<open>
  C6 (as the code has it). The census counts what \<open>stat\<close>, which follows symbolic links,
  reports as a regular file. A special file contributes nothing. A symbolic link
  contributes what its target does: a link to a regular file counts as one file of the
  target's size, a link to a directory is walked like a directory, and a dangling link
  makes the census fail. So the census of a directory is the count and total size of the
  regular files of the tree with every link replaced by its target; in a tree without
  symbolic links it is the count and total size of the regular files of the tree.
\<close>

theorem getFolderStat_counts_stat_regular_files:
  "getFolderStat (Dir es) =
     (case followed_entries es of
        None \<Rightarrow> Inl (FsError ''ENOENT'')
      | Some es' \<Rightarrow> Inr (spec_census (Dir es')))
   \<and> (link_free (Dir es) \<longrightarrow> getFolderStat (Dir es) = Inr (spec_census (Dir es)))"
  using census_followed(1) [of "Dir es"] followed_link_free(2) [of es]
  by (auto split: option.splits)

theorem getFolderStat_counts_stat_regular_files_witness:
  "link_free (Dir [(''index.js'', File 3 Opaque), (''pipe'', Special),
                   (''lib'', Dir [(''a.js'', File 4 Opaque)])])
   \<and> getFolderStat (Dir [(''index.js'', File 3 Opaque), (''pipe'', Special),
                   (''lib'', Dir [(''a.js'', File 4 Opaque)])])
     = Inr \<lparr> fileCount = 2, totalSize = 7 \<rparr>"
  using getFolderStat_counts_stat_regular_files
    [of "[(''index.js'', File 3 Opaque), (''pipe'', Special), (''lib'', Dir [(''a.js'', File 4 Opaque)])]"]
  by (simp add: addFolderStat_def no_files_def)

text \<open>
  C6 as stated fails: a symbolic link to a regular file is counted, with the size of its
  target, where the specification's census of regular files counts one file of 3 bytes.
\<close>

theorem getFolderStat_counts_symlink_counterexample:
  "getFolderStat (Dir [(''a.js'', File 3 Opaque), (''alias.js'', Link ''a.js'' (Some (File 3 Opaque)))])
     = Inr \<lparr> fileCount = 2, totalSize = 6 \<rparr>
   \<and> spec_census (Dir [(''a.js'', File 3 Opaque), (''alias.js'', Link ''a.js'' (Some (File 3 Opaque)))])
     = \<lparr> fileCount = 1, totalSize = 3 \<rparr>"
  by (simp add: addFileStat_def addFolderStat_def no_files_def)

section \<open>Properties of the file system\<close>

lemma map_of_put_entry:
  "map_of (put_entry k n es) k' = (if k' = k then Some n else map_of es k')"
proof (cases "k \<in> fst ` set es")
  case True
  have "map_of (map (\<lambda>(k', c). if k' = k then (k', n) else (k', c)) es) k'
        = (if k' = k then map_option (\<lambda>_. n) (map_of es k) else map_of es k')" for es :: "(string \<times> node) list"
    by (induction es) auto
  moreover from True have "map_of es k \<noteq> None"
    by (simp add: map_of_eq_None_iff)
  ultimately show ?thesis using True by (auto simp: put_entry_def)
next
  case False
  then have "map_of es k = None" by (simp add: map_of_eq_None_iff)
  with False show ?thesis by (auto simp: put_entry_def map_add_def split: option.splits)
qed

lemma map_of_remove_entry:
  "map_of (remove_entry k es) k' = (if k' = k then None else map_of es k')"
  by (induction es) (auto simp: remove_entry_def)


lemma alter_lstat:
  "alter mk f p r = Inr r' \<Longrightarrow> \<exists>new. f (lstat r p) = Inr new \<and> lstat r' p = new"
proof (induction mk f p r arbitrary: r' rule: alter.induct)
  case (2 mk f k es)
  then show ?case
    by (auto simp: map_of_put_entry map_of_remove_entry split: sum.splits option.splits)
next
  case (3 mk f k k' ks es)
  show ?case
  proof (cases "map_of es k")
    case None
    with "3.prems" obtain d where mk: mk and d: "alter mk f (k' # ks) (Dir []) = Inr d"
      and r': "r' = Dir (put_entry k d es)"
      by (auto split: if_splits sum.splits)
    from "3.IH"(1) [OF None mk d] obtain new
      where "f (lstat (Dir []) (k' # ks)) = Inr new" "lstat d (k' # ks) = new" by blast
    with None r' show ?thesis by (simp add: map_of_put_entry)
  next
    case (Some c)
    with "3.prems" obtain c' where c': "alter mk f (k' # ks) c = Inr c'"
      and r': "r' = Dir (put_entry k c' es)"
      by (auto split: sum.splits)
    from "3.IH"(2) [OF Some c'] obtain new
      where "f (lstat c (k' # ks)) = Inr new" "lstat c' (k' # ks) = new" by blast
    with Some r' show ?thesis by (simp add: map_of_put_entry)
  qed
qed simp_all



text \<open>With nothing pending, a point where the program waits changes nothing.\<close>

lemma background_idle: "pending w = [] \<Longrightarrow> background n w = (Inr (), w)"
  by (simp add: background_def)

lemma io_wait_idle: "pending w = [] \<Longrightarrow> io_wait e wt w = (Inr (), w)"
  by (simp add: io_wait_def background_idle)

section \<open>Evaluating the model\<close>

lemmas io_defs =
  io_bind_def io_then_def io_when_def io_return_def io_throw_def io_exists_def existsSync_def
  log_event_def fs_call_def readFile_def mkdirSync_recursive_def rmSync_recursive_force_def
  rmSync_def symlinkSync_def do_fetch_def io_wait_def background_def start_tasks_def drain_def

lemmas path_defs =
  NODE_MODULES_PATH_def NODE_MODULES_BIN_PATH_def WORKING_DIRECTORY_def PACKAGE_FILE_NAME_def
  NODE_MODULES_DIR_NAME_def PACKAGE_JSON_PATH_def path_join_def path_normalize_def path_basename_def
  path_dirname_def isAbsolute_def resolve_def stat_def cacheDir_def

lemmas fs_defs =
  mkdir_p_def rm_rf_def rm_file_def create_exclusive_def write_file_def extract_entry_def
  write_entry_def tasks_of_def put_entry_def remove_entry_def

lemmas client_defs =
  new_NpmClient_def getPackage_def readPackageInfoCache_def writePackageInfoCache_def
  downloadPackageInfo_def getFileHash_def isFileValid_def unpackModule_def archiveFilePath_def
  incorrect_hash_def fetchArchive_def checkAndUnpack_def downloadModule_def redownloadModule_def
  getFolderStat_at_def isModuleValid_def symlinkBinFiles_def undefined_property_def
  addFileStat_def addFolderStat_def

lemmas orchestrator_defs =
  installDependencies_def installDependency_def already_processed_def object_prototype_keys_def
  readPackageJson_def getPackageDependencies_def spread_def or_empty_def
  extractVersionFromVersion_def extractPackageNameFromVersion_def
  isVersionContainPackageName_def lookup_key_def index_nullable_def object_keys_def
  maxSatisfying_def maxStep_def

lemmas registry_defs =
  registry_env_def registry_urls_def default_client_def semver_lib_def semver_satisfies_def
  semver_compare_def parse_version_def parse_num_def parse_range_def metadata_of_def
  version_of_def archive_of_def digest_of_def tarball_url_def found_def not_found_def
  installed_module_def descriptor_of_def manifest_def NPM_REGISTRY_def unpacking_def

lemmas eval_defs = io_defs path_defs fs_defs client_defs orchestrator_defs registry_defs Let_def

section \<open>The install loop on a cycle\<close>

lemma cycle_step_a:
  assumes "L ''a'' = Some ''''"
  shows "installDependencies (registry_env cycle_registry) default_client L [(''a'', '''')]
           \<lparr> root = cycle_root, trace = t, pending = p \<rparr>
         = (Inr (L(''a'' \<mapsto> ''''), [(''b'', '''')]),
            \<lparr> root = cycle_root, trace = t @ [Processing ''a''], pending = p \<rparr>)"
  using assms by (simp add: eval_defs cycle_root_def cycle_registry_def)

lemma cycle_step_b:
  assumes "L ''b'' = Some ''''"
  shows "installDependencies (registry_env cycle_registry) default_client L [(''b'', '''')]
           \<lparr> root = cycle_root, trace = t, pending = p \<rparr>
         = (Inr (L(''b'' \<mapsto> ''''), [(''a'', '''')]),
            \<lparr> root = cycle_root, trace = t @ [Processing ''b''], pending = p \<rparr>)"
  using assms by (simp add: eval_defs cycle_root_def cycle_registry_def)

lemma cycle_never_returns:
  assumes "in_cycle e c l r w"
  shows "install_levels e c l r w = None"
proof (rule ccontr)
  assume "install_levels e c l r w \<noteq> None"
  then obtain y where y: "install_levels e c l r w = Some y" by auto
  have "\<not> in_cycle e c l r w"
  proof (rule install_levels.raw_induct [where P = "\<lambda>e c l r w y. \<not> in_cycle e c l r w", OF _ y])
    fix f e c l r w y
    assume IH: "\<And>c l r w b y. f c l r w b = Some y \<Longrightarrow> \<not> in_cycle c l r w b"
      and step: "(case installDependencies e c l r w of
                    (Inl err, w') \<Rightarrow> Some (Inl err, w')
                  | (Inr (processed', next), w') \<Rightarrow>
                      if 0 < length (object_keys next) then f e c processed' next w'
                      else Some (Inr (), w')) = Some y"
    show "\<not> in_cycle e c l r w"
    proof
      assume c: "in_cycle e c l r w"
      then have w: "w = \<lparr> root = cycle_root, trace = trace w, pending = pending w \<rparr>"
        by (cases w) (simp add: in_cycle_def)
      from c have "r = [(''a'', '''')] \<or> r = [(''b'', '''')]" by (simp add: in_cycle_def)
      then show False
      proof
        assume r: "r = [(''a'', '''')]"
        from c have la: "l ''a'' = Some ''''" by (simp add: in_cycle_def)
        have "installDependencies e c l r w
              = (Inr (l(''a'' \<mapsto> ''''), [(''b'', '''')]),
                 \<lparr> root = cycle_root, trace = trace w @ [Processing ''a''], pending = pending w \<rparr>)"
          using cycle_step_a [where L = l and t = "trace w" and p = "pending w", OF la] c r w by (simp add: in_cycle_def)
        with step have "f e c (l(''a'' \<mapsto> '''')) [(''b'', '''')]
              \<lparr> root = cycle_root, trace = trace w @ [Processing ''a''], pending = pending w \<rparr> = Some y"
          by (simp add: object_keys_def)
        from IH [OF this] c show False by (simp add: in_cycle_def)
      next
        assume r: "r = [(''b'', '''')]"
        from c have lb: "l ''b'' = Some ''''" by (simp add: in_cycle_def)
        have "installDependencies e c l r w
              = (Inr (l(''b'' \<mapsto> ''''), [(''a'', '''')]),
                 \<lparr> root = cycle_root, trace = trace w @ [Processing ''b''], pending = pending w \<rparr>)"
          using cycle_step_b [where L = l and t = "trace w" and p = "pending w", OF lb] c r w by (simp add: in_cycle_def)
        with step have "f e c (l(''b'' \<mapsto> '''')) [(''a'', '''')]
              \<lparr> root = cycle_root, trace = trace w @ [Processing ''b''], pending = pending w \<rparr> = Some y"
          by (simp add: object_keys_def)
        from IH [OF this] c show False by (simp add: in_cycle_def)
      qed
    qed
  qed
  with assms show False by simp
qed

lemma cycle_start:
  "new_NpmClient (registry_env cycle_registry) NPM_REGISTRY
     (WORKING_DIRECTORY (registry_env cycle_registry)) True cycle_world
   = (Inr default_client, \<lparr> root = cycle_root_0, trace = [], pending = [] \<rparr>)"
  by (simp add: eval_defs cycle_world_def cycle_root_0_def)

lemma cycle_manifest:
  "getPackageDependencies (registry_env cycle_registry)
     (path_join [WORKING_DIRECTORY (registry_env cycle_registry), PACKAGE_FILE_NAME]) False
     \<lparr> root = cycle_root_0, trace = [], pending = [] \<rparr>
   = (Inr [(''a'', '''')], \<lparr> root = cycle_root_0, trace = [], pending = [] \<rparr>)"
  by (simp add: eval_defs cycle_root_0_def)

text \<open>
  Level 0: \<open>a\<close> is downloaded; when \<open>downloadModule\<close> returns its archive has been
  read and removed and nothing of it is written yet.
\<close>

lemma cycle_level_0:
  "installDependencies (registry_env cycle_registry) default_client Map.empty [(''a'', '''')]
     \<lparr> root = cycle_root_0, trace = t, pending = [] \<rparr>
   = (Inr ([''a'' \<mapsto> ''''], [(''b'', '''')]),
      \<lparr> root = cycle_root_1,
        trace = t @ [Processing ''a'', Fetched ''https://registry.npmjs.org/a'',
                     DownloadModule ''/proj/node_modules/a'',
                     Fetched ''https://registry.npmjs.org/a/-/a-1.0.0.tgz'',
                     UnpackModule ''/proj/node_modules/a/a-1.0.0.tgz''],
        pending = [unpacking ''a'' ''1.0.0'' [(''b'', '''')]] \<rparr>)"
  by (simp add: eval_defs cycle_registry_def cycle_root_0_def cycle_root_1_def)

text \<open>
  Level 1: the request for the metadata of \<open>b\<close> gives the unpacking of \<open>a\<close> the time
  to end; \<open>b\<close> is downloaded.
\<close>

lemma cycle_level_1:
  "installDependencies (registry_env cycle_registry) default_client [''a'' \<mapsto> ''''] [(''b'', '''')]
     \<lparr> root = cycle_root_1, trace = t, pending = [unpacking ''a'' ''1.0.0'' [(''b'', '''')]] \<rparr>
   = (Inr ([''a'' \<mapsto> '''', ''b'' \<mapsto> ''''], [(''a'', '''')]),
      \<lparr> root = cycle_root_2,
        trace = t @ [Processing ''b'', Fetched ''https://registry.npmjs.org/b'',
                     DownloadModule ''/proj/node_modules/b'',
                     Fetched ''https://registry.npmjs.org/b/-/b-1.0.0.tgz'',
                     UnpackModule ''/proj/node_modules/b/b-1.0.0.tgz''],
        pending = [unpacking ''b'' ''1.0.0'' [(''a'', '''')]] \<rparr>)"
  by (simp add: eval_defs cycle_registry_def cycle_root_1_def cycle_root_2_def)

text \<open>
  Level 2: \<open>a\<close> is processed a second time, from the cache and the installed
  descriptor, with no request, so that the unpacking of \<open>b\<close> stays pending.
\<close>

lemma cycle_level_2:
  "installDependencies (registry_env cycle_registry) default_client
     [''a'' \<mapsto> '''', ''b'' \<mapsto> ''''] [(''a'', '''')]
     \<lparr> root = cycle_root_2, trace = t, pending = [unpacking ''b'' ''1.0.0'' [(''a'', '''')]] \<rparr>
   = (Inr ([''a'' \<mapsto> '''', ''b'' \<mapsto> ''''], [(''b'', '''')]),
      \<lparr> root = cycle_root_2, trace = t @ [Processing ''a''],
        pending = [unpacking ''b'' ''1.0.0'' [(''a'', '''')]] \<rparr>)"
  by (simp add: eval_defs cycle_registry_def cycle_root_2_def fun_upd_twist)

text \<open>
  Level 3: \<open>b\<close> is processed a second time while its directory is still empty, and is
  downloaded again; the request for the archive gives the first unpacking the time to
  end.
\<close>

lemma cycle_level_3:
  "installDependencies (registry_env cycle_registry) default_client
     [''a'' \<mapsto> '''', ''b'' \<mapsto> ''''] [(''b'', '''')]
     \<lparr> root = cycle_root_2, trace = t, pending = [unpacking ''b'' ''1.0.0'' [(''a'', '''')]] \<rparr>
   = (Inr ([''a'' \<mapsto> '''', ''b'' \<mapsto> ''''], [(''a'', '''')]),
      \<lparr> root = cycle_root,
        trace = t @ [Processing ''b'', DownloadModule ''/proj/node_modules/b'',
                     Fetched ''https://registry.npmjs.org/b/-/b-1.0.0.tgz'',
                     UnpackModule ''/proj/node_modules/b/b-1.0.0.tgz''],
        pending = [unpacking ''b'' ''1.0.0'' [(''a'', '''')]] \<rparr>)"
  by (simp add: eval_defs cycle_registry_def cycle_root_2_def cycle_root_def)

lemma cycle_processes_a_again:
  "installDependencies (registry_env cycle_registry) default_client
     [''a'' \<mapsto> '''', ''b'' \<mapsto> ''''] [(''a'', '''')]
     \<lparr> root = cycle_root, trace = t, pending = p \<rparr>
   = (Inr ([''a'' \<mapsto> '''', ''b'' \<mapsto> ''''], [(''b'', '''')]),
      \<lparr> root = cycle_root, trace = t @ [Processing ''a''], pending = p \<rparr>)"
  using cycle_step_a [where L = "[''a'' \<mapsto> '''', ''b'' \<mapsto> '''']" and t = t and p = p]
  by (simp add: fun_upd_twist)

text \<open>
  C7 at a failing input. The manifest requires \<open>a\<close> with the empty range, the registry
  has \<open>a\<close> 1.0.0 requiring \<open>b\<close> and \<open>b\<close> 1.0.0 requiring \<open>a\<close>, both with the empty
  range. The ledger entry of a processed key is the empty string, which the loop reads
  as "not processed": \<open>a\<close> and \<open>b\<close> are worked on again at every later level
  (\<open>cycle_level_2\<close>, \<open>cycle_level_3\<close>, \<open>cycle_processes_a_again\<close>), and the
  \<open>install\<close> command never returns.
\<close>

theorem install_never_returns_on_cycle_with_empty_ranges:
  "install_command (registry_env cycle_registry) False cycle_world = None"
proof -
  let ?e = "registry_env cycle_registry"
  let ?L = "[''a'' \<mapsto> '''', ''b'' \<mapsto> '''']"
  let ?t0 = "[] @ [Processing ''a'', Fetched ''https://registry.npmjs.org/a'',
                     DownloadModule ''/proj/node_modules/a'',
                     Fetched ''https://registry.npmjs.org/a/-/a-1.0.0.tgz'',
                     UnpackModule ''/proj/node_modules/a/a-1.0.0.tgz'']"
  let ?t1 = "?t0 @ [Processing ''b'', Fetched ''https://registry.npmjs.org/b'',
                     DownloadModule ''/proj/node_modules/b'',
                     Fetched ''https://registry.npmjs.org/b/-/b-1.0.0.tgz'',
                     UnpackModule ''/proj/node_modules/b/b-1.0.0.tgz'']"
  let ?t2 = "?t1 @ [Processing ''a'']"
  let ?t3 = "?t2 @ [Processing ''b'', DownloadModule ''/proj/node_modules/b'',
                     Fetched ''https://registry.npmjs.org/b/-/b-1.0.0.tgz'',
                     UnpackModule ''/proj/node_modules/b/b-1.0.0.tgz'']"
  have l1: "install_levels ?e default_client [''a'' \<mapsto> ''''] [(''b'', '''')]
              \<lparr> root = cycle_root_1, trace = ?t0, pending = [unpacking ''a'' ''1.0.0'' [(''b'', '''')]] \<rparr>
            = install_levels ?e default_client ?L [(''a'', '''')]
              \<lparr> root = cycle_root_2, trace = ?t1, pending = [unpacking ''b'' ''1.0.0'' [(''a'', '''')]] \<rparr>"
    by (subst install_levels.simps) (simp only: cycle_level_1 prod.case sum.case, simp add: object_keys_def)
  have l2: "install_levels ?e default_client ?L [(''a'', '''')]
              \<lparr> root = cycle_root_2, trace = ?t1, pending = [unpacking ''b'' ''1.0.0'' [(''a'', '''')]] \<rparr>
            = install_levels ?e default_client ?L [(''b'', '''')]
              \<lparr> root = cycle_root_2, trace = ?t2, pending = [unpacking ''b'' ''1.0.0'' [(''a'', '''')]] \<rparr>"
    by (subst install_levels.simps) (simp only: cycle_level_2 prod.case sum.case, simp add: object_keys_def)
  have l3: "install_levels ?e default_client ?L [(''b'', '''')]
              \<lparr> root = cycle_root_2, trace = ?t2, pending = [unpacking ''b'' ''1.0.0'' [(''a'', '''')]] \<rparr>
            = install_levels ?e default_client ?L [(''a'', '''')]
              \<lparr> root = cycle_root, trace = ?t3, pending = [unpacking ''b'' ''1.0.0'' [(''a'', '''')]] \<rparr>"
    by (subst install_levels.simps) (simp only: cycle_level_3 prod.case sum.case, simp add: object_keys_def)
  have l4: "install_levels ?e default_client ?L [(''a'', '''')]
              \<lparr> root = cycle_root, trace = ?t3, pending = [unpacking ''b'' ''1.0.0'' [(''a'', '''')]] \<rparr> = None"
    by (rule cycle_never_returns) (simp add: in_cycle_def)
  have "installPackage ?e default_client False \<lparr> root = cycle_root_0, trace = [], pending = [] \<rparr> = None"
    by (simp only: installPackage_def cycle_manifest cycle_level_0 prod.case sum.case l1 l2 l3 l4)
  then show ?thesis
    by (simp only: install_command_def cycle_start prod.case sum.case option.case)
qed

section \<open>Upgrading an installed module\<close>

text \<open>
  C1 at a failing input. \<open>x\<close> 1.0.0 is installed and requires \<open>a\<close>; the range \<open>^2.0.0\<close> is
  required; the registry has \<open>x\<close> 2.0.0, which requires \<open>b\<close>. The loop reinstalls \<open>x\<close>
  through \<open>redownloadModule\<close>: the directory of 1.0.0 is removed and the archive of 2.0.0
  is handed to the unpacking, which, once it has run, leaves the \<open>package.json\<close> of 2.0.0
  as the installed descriptor. But the requirements handed to the next level are \<open>a\<close> in
  \<open>1.0.0\<close>, those of the descriptor read before the reinstall, and not \<open>b\<close>.
\<close>

theorem upgrade_merges_dependencies_of_replaced_version:
  "installDependencies (registry_env upgrade_registry) default_client Map.empty
     [(''x'', ''^2.0.0'')] upgrade_world
   = (Inr ([''x'' \<mapsto> ''^2.0.0''], [(''a'', ''1.0.0'')]), after_upgrade)
   \<and> drain after_upgrade = (Inr (), after_upgrade_unpacked)
   \<and> readPackageJson (registry_env upgrade_registry) ''/proj/node_modules/x/package.json''
         after_upgrade_unpacked
       = (Inr (descriptor_of ''x'' ''2.0.0'' [(''b'', ''1.0.0'')]), after_upgrade_unpacked)"
  by (simp add: eval_defs upgrade_registry_def upgrade_world_def after_upgrade_def
      after_upgrade_unpacked_def cached_def)

section \<open>A second run\<close>

text \<open>
  The part of a second run that does hold: a dependency whose module is installed in a
  published version that satisfies the range, passes the validity check and declares no
  executables is left alone; nothing is downloaded and the tree stays as it is after the
  metadata has been read.
\<close>

lemma valid_module_is_left_alone:
  assumes unprocessed: "\<not> already_processed ledger key"
    and meta: "getPackage e c
                 (if isVersionContainPackageName required
                  then extractPackageNameFromVersion required else key)
                 (w \<lparr> trace := trace w @ [Processing key] \<rparr>) = (Inr m, w1)"
    and installed: "existsSync e (path_join [path_join [NODE_MODULES_PATH e, key], PACKAGE_FILE_NAME]) w1"
    and descriptor: "readPackageJson e (path_join [path_join [NODE_MODULES_PATH e, key], PACKAGE_FILE_NAME]) w1
                     = (Inr p, w1)"
    and satisfied: "satisfies (semver_of e) (p_version p) (extractVersionFromVersion required)"
    and published: "lookup_key (versions m) (p_version p) = Some v"
    and valid: "isModuleValid e (Some v) (path_join [NODE_MODULES_PATH e, key]) w1 = (Inr True, w1)"
    and nobin: "v_bin v = None"
  shows "installDependency e c (key, required) (ledger, next) w
         = (Inr (ledger(key \<mapsto> extractVersionFromVersion required),
                 spread next (or_empty (p_dependencies p))), w1)"
  using assms
  by (simp add: installDependency_def symlinkBinFiles_def io_bind_def io_then_def io_return_def
      io_when_def io_exists_def log_event_def Let_def)

text \<open>
  C8 at a failing input. The first run starts from the tree in which \<open>x\<close> 1.0.0 is
  installed, upgrades \<open>x\<close> to 2.0.0 and installs \<open>a\<close>, the dependency of the replaced
  version. The second run, on the tree the first run produced and with the same manifest
  and registry, finds \<open>x\<close> 2.0.0 valid, takes its dependency \<open>b\<close> from the installed
  descriptor and downloads \<open>b\<close>: \<open>downloadModule\<close> is called, and the module tree gets a
  new directory.
\<close>

theorem second_run_downloads_after_upgrade:
  "install_command (registry_env upgrade_registry) False upgrade_world
     = Some (Inr (), after_first_run)
   \<and> install_command (registry_env upgrade_registry) False after_first_run
     = Some (Inr (), after_second_run)"
  by code_simp

section \<open>Construction of the registry client\<close>

lemma resolve_cacheDir: "resolve c cacheDir = c @ [''.gpm'', ''cache'']"
  by (simp add: resolve_def cacheDir_def path_join_def path_normalize_def isAbsolute_def)

lemma rm_rf_lstat: "rm_rf p r = Inr r' \<Longrightarrow> lstat r p \<noteq> None \<Longrightarrow> lstat r' p = None"
  using alter_lstat [of False "\<lambda>cur. Inr None" p r r']
  by (auto simp: rm_rf_def split: if_splits)

lemma mkdir_p_lstat:
  assumes "mkdir_p p r = Inr r'" and "p \<noteq> []" and "stat r p = None"
  shows "lstat r' p = Some (Dir [])"
proof -
  let ?f = "\<lambda>cur. case cur of
                None \<Rightarrow> Inr (Some (Dir []))
              | Some n \<Rightarrow> (case deref n of Some (Dir es) \<Rightarrow> Inr (Some n)
                           | _ \<Rightarrow> Inl (FsError ''EEXIST''))"
  from assms(1,2) have "alter True ?f p r = Inr r'" by (simp add: mkdir_p_def)
  from alter_lstat [OF this] assms(3) show ?thesis
    by (auto simp: stat_def split: option.splits)
qed

text \<open>
  When the working directory given to the constructor is the current directory of the
  process, as it is for the client the program constructs, a construction that succeeds
  leaves an empty cache directory.
\<close>

lemma constructor_wipes_cache_of_current_directory:
  assumes same: "resolve (cwd e) (path_join [dir, cacheDir]) = resolve (cwd e) cacheDir"
    and constructed: "new_NpmClient e url dir True w = (Inr c, w')"
  shows "lstat (root w') (cwd e @ [''.gpm'', ''cache'']) = Some (Dir [])"
proof -
  let ?P = "cwd e @ [''.gpm'', ''cache'']"
  have P: "resolve (cwd e) (path_join [dir, cacheDir]) = ?P" "resolve (cwd e) cacheDir = ?P"
    using same by (simp_all add: resolve_cacheDir)
  show ?thesis
  proof (cases "existsSync e cacheDir w")
    case True
    then have ex: "lstat (root w) ?P \<noteq> None"
      by (auto simp: existsSync_def stat_def P split: option.splits)
    from constructed True obtain r1 where r1: "rm_rf ?P (root w) = Inr r1"
      and mk: "mkdir_p ?P r1 = Inr (root w')"
      by (auto simp: new_NpmClient_def io_bind_def io_then_def io_when_def io_return_def
          io_exists_def fs_call_def rmSync_recursive_force_def mkdirSync_recursive_def P Let_def
          split: sum.splits)
    from rm_rf_lstat [OF r1 ex] have "stat r1 ?P = None" by (simp add: stat_def)
    from mkdir_p_lstat [OF mk _ this] show ?thesis by simp
  next
    case False
    then have st: "stat (root w) ?P = None" by (simp add: existsSync_def P)
    from constructed False have mk: "mkdir_p ?P (root w) = Inr (root w')"
      by (auto simp: new_NpmClient_def io_bind_def io_then_def io_when_def io_return_def
          io_exists_def fs_call_def mkdirSync_recursive_def P Let_def split: sum.splits)
    from mkdir_p_lstat [OF mk _ st] show ?thesis by simp
  qed
qed

text \<open>
  C9 at a failing input. The client is constructed for the working directory \<open>/other\<close>
  while the process runs in \<open>/proj\<close>. The constructor tests \<open>.gpm/cache\<close> relative to the
  current directory, finds nothing there and skips the removal; creating the existing
  directory \<open>/other/.gpm/cache\<close> again changes nothing. The cache of the earlier run is
  still there.
\<close>

theorem constructor_keeps_cache_of_other_working_directory:
  "new_NpmClient (registry_env upgrade_registry) NPM_REGISTRY ''/other'' True stale_world
   = (Inr \<lparr> registryUrl = NPM_REGISTRY, workingDir = ''/other'', cacheable = True \<rparr>, stale_world)"
  by (simp add: eval_defs stale_world_def)

section \<open>Failing registry requests\<close>

text \<open>
  C3 (as the code has it). When the metadata of a package is not in the cache and the
  registry answers with a status that is not successful, \<open>getPackage\<close> fails. While the
  answer is awaited an unpacking started earlier may go on; if a stream of it raises an
  error nobody listens to, that error ends the run. Otherwise \<open>getPackage\<close> fails with an
  \<open>Error\<close> whose message is \<open>Failed to download package: \<close> followed by the status text
  (the reason phrase) of the response, and by nothing else. When no unpacking is under
  way, the call leaves the tree as it found it.
\<close>

theorem getPackage_fails_with_status_text:
  assumes miss: "\<not> cacheable c \<or> \<not> existsSync e (path_join [workingDir c, cacheDir, packageName @ ''.json'']) w"
    and res: "fetch e (registryUrl c @ ''/'' @ packageName) = Some res"
    and bad: "\<not> ok res"
  shows "getPackage e c packageName w
         = (case io_wait e (WaitFetch (registryUrl c @ ''/'' @ packageName))
                  (w \<lparr> trace := trace w @ [Fetched (registryUrl c @ ''/'' @ packageName)] \<rparr>) of
              (Inl err, w') \<Rightarrow> (Inl err, w')
            | (Inr u, w') \<Rightarrow> (Inl (Error (''Failed to download package: '' @ statusText res)), w'))
         \<and> (pending w = [] \<longrightarrow>
              getPackage e c packageName w
              = (Inl (Error (''Failed to download package: '' @ statusText res)),
                 w \<lparr> trace := trace w @ [Fetched (registryUrl c @ ''/'' @ packageName)] \<rparr>))"
proof -
  let ?url = "registryUrl c @ ''/'' @ packageName"
  let ?w = "w \<lparr> trace := trace w @ [Fetched ?url] \<rparr>"
  have general: "getPackage e c packageName w
         = (case io_wait e (WaitFetch ?url) ?w of
              (Inl err, w') \<Rightarrow> (Inl err, w')
            | (Inr u, w') \<Rightarrow> (Inl (Error (''Failed to download package: '' @ statusText res)), w'))"
    using miss res bad
    by (auto simp: getPackage_def readPackageInfoCache_def downloadPackageInfo_def do_fetch_def
        io_bind_def io_then_def io_return_def io_throw_def io_exists_def log_event_def Let_def
        split: prod.splits sum.splits)
  have "pending w = [] \<Longrightarrow> io_wait e (WaitFetch ?url) ?w = (Inr (), ?w)"
    by (rule io_wait_idle) simp
  with general show ?thesis by simp
qed

theorem getPackage_fails_with_status_text_witness:
  "getPackage (registry_env []) default_client ''left-pad'' empty_project
   = (Inl (Error ''Failed to download package: Not Found''),
      empty_project \<lparr> trace := [Fetched ''https://registry.npmjs.org/left-pad''] \<rparr>)
   \<and> getPackage (registry_env []) default_client ''left-pad'' (empty_project \<lparr> pending := [Broken] \<rparr>)
   = (Inl UncaughtStreamError,
      empty_project \<lparr> trace := [Fetched ''https://registry.npmjs.org/left-pad''] \<rparr>)"
proof -
  have miss: "\<not> cacheable default_client
      \<or> \<not> existsSync (registry_env []) (path_join [workingDir default_client, cacheDir, ''left-pad'' @ ''.json'']) empty_project"
    by (simp add: eval_defs empty_project_def)
  have miss': "\<not> cacheable default_client
      \<or> \<not> existsSync (registry_env []) (path_join [workingDir default_client, cacheDir, ''left-pad'' @ ''.json''])
            (empty_project \<lparr> pending := [Broken] \<rparr>)"
    by (simp add: eval_defs empty_project_def)
  have res: "fetch (registry_env []) (registryUrl default_client @ ''/'' @ ''left-pad'') = Some not_found"
    by (simp add: registry_env_def registry_urls_def)
  have bad: "\<not> ok not_found" by (simp add: not_found_def)
  have idle: "pending empty_project = []" by (simp add: empty_project_def)
  from getPackage_fails_with_status_text [OF miss res bad, THEN conjunct2] idle
  have one: "getPackage (registry_env []) default_client ''left-pad'' empty_project
   = (Inl (Error ''Failed to download package: Not Found''),
      empty_project \<lparr> trace := [Fetched ''https://registry.npmjs.org/left-pad''] \<rparr>)"
    by (simp add: not_found_def default_client_def NPM_REGISTRY_def empty_project_def)
  from getPackage_fails_with_status_text [OF miss' res bad, THEN conjunct1]
  have two: "getPackage (registry_env []) default_client ''left-pad'' (empty_project \<lparr> pending := [Broken] \<rparr>)
   = (Inl UncaughtStreamError,
      empty_project \<lparr> trace := [Fetched ''https://registry.npmjs.org/left-pad''] \<rparr>)"
    by (simp add: not_found_def default_client_def NPM_REGISTRY_def empty_project_def
        io_wait_def background_def registry_env_def)
  from one two show ?thesis by simp
qed

text \<open>
  C3 as stated fails: for the package \<open>left-pad\<close> and the answer \<open>404 Not Found\<close> the
  message contains neither the package name nor the status code.
\<close>

theorem getPackage_message_counterexample:
  "fst (getPackage (registry_env []) default_client ''left-pad'' empty_project)
     = Inl (Error ''Failed to download package: Not Found'')
   \<and> \<not> str_includes ''Failed to download package: Not Found'' ''left-pad''
   \<and> \<not> str_includes ''Failed to download package: Not Found'' ''404''"
  by (simp add: eval_defs empty_project_def)

section \<open>Ranges that no published version satisfies\<close>

lemma maxSatisfying_nothing:
  "\<forall>u \<in> set vs. \<not> satisfies sv u rng \<Longrightarrow> maxSatisfying sv vs rng = None"
  by (simp add: maxSatisfying_def maxSatisfying_none)

lemma lookup_key_unpublished: "v \<notin> set (object_keys obj) \<Longrightarrow> lookup_key obj v = None"
  by (simp add: object_keys_def lookup_key_def map_of_eq_None_iff)

lemma readPackageJson_world: "snd (readPackageJson e p w) = w"
  by (simp add: readPackageJson_def readFile_def io_bind_def io_return_def io_throw_def
      split: option.splits node.splits content.splits)

lemma getFolderStat_at_world: "snd (getFolderStat_at e d w) = w"
  by (simp add: getFolderStat_at_def split: option.splits)

text \<open>
  C4 (as the code has it). Let a key of the level be unprocessed, let the metadata of
  its package have been obtained, let no published version satisfy the required range
  (and let the versions table have no entry called \<open>null\<close>). Then the work on this key
  fails, no archive is requested, and the error is one of these:

    \<^item> the module is not installed: the \<open>TypeError\<close> of reading \<open>dist\<close> of \<open>undefined\<close>,
      thrown by \<open>downloadModule\<close>;
    \<^item> the installed \<open>package.json\<close> cannot be read: the error of reading it;
    \<^item> the installed version does not satisfy the range: the \<open>TypeError\<close> of reading
      \<open>name\<close> of \<open>undefined\<close>, thrown by \<open>redownloadModule\<close>;
    \<^item> the installed version satisfies the range (it is then not a published one):
      \<open>isModuleValid\<close> fails, with the error of the census of the module directory if
      the census fails, and with the \<open>TypeError\<close> of reading \<open>dist\<close> of \<open>undefined\<close>
      otherwise; neither \<open>downloadModule\<close> nor \<open>redownloadModule\<close> is called.

  The two \<open>TypeError\<close>s have fixed messages, the same for every package and range.
\<close>

theorem unsatisfiable_range_fails_with_TypeError:
  assumes unprocessed: "\<not> already_processed ledger key"
    and meta: "getPackage e c
                 (if isVersionContainPackageName required
                  then extractPackageNameFromVersion required else key)
                 (w \<lparr> trace := trace w @ [Processing key] \<rparr>) = (Inr m, w1)"
    and none: "\<forall>u \<in> set (object_keys (versions m)).
                 \<not> satisfies (semver_of e) u (extractVersionFromVersion required)"
    and nonull: "lookup_key (versions m) ''null'' = None"
  shows "installDependency e c (key, required) (ledger, next) w
         = (if \<not> existsSync e (path_join [path_join [NODE_MODULES_PATH e, key], PACKAGE_FILE_NAME]) w1
            then (Inl (TypeError ''Cannot read properties of undefined (reading 'dist')''),
                  w1 \<lparr> trace := trace w1 @ [DownloadModule (path_join [NODE_MODULES_PATH e, key])] \<rparr>)
            else
              (case fst (readPackageJson e
                           (path_join [path_join [NODE_MODULES_PATH e, key], PACKAGE_FILE_NAME]) w1) of
                 Inl err \<Rightarrow> (Inl err, w1)
               | Inr p \<Rightarrow>
                   if \<not> satisfies (semver_of e) (p_version p) (extractVersionFromVersion required)
                   then (Inl (TypeError ''Cannot read properties of undefined (reading 'name')''),
                         w1 \<lparr> trace := trace w1
                                 @ [RedownloadModule (path_join [NODE_MODULES_PATH e, key])] \<rparr>)
                   else
                     (case fst (getFolderStat_at e (path_join [NODE_MODULES_PATH e, key]) w1) of
                        Inl err \<Rightarrow> (Inl err, w1)
                      | Inr census \<Rightarrow>
                          (Inl (TypeError ''Cannot read properties of undefined (reading 'dist')''),
                           w1))))
         \<and> isl (fst (installDependency e c (key, required) (ledger, next) w))"
proof -
  let ?dir = "path_join [NODE_MODULES_PATH e, key]"
  let ?pj = "path_join [?dir, PACKAGE_FILE_NAME]"
  let ?rng = "extractVersionFromVersion required"
  have nomax: "maxSatisfying (semver_of e) (object_keys (versions m)) ?rng = None"
    by (rule maxSatisfying_nothing [OF none])
  have unpublished: "lookup_key (versions m) v = None" if "satisfies (semver_of e) v ?rng" for v
    using that none by (auto intro: lookup_key_unpublished)
  obtain r where rd: "readPackageJson e ?pj w1 = (r, w1)"
    using readPackageJson_world [of e ?pj w1] by (cases "readPackageJson e ?pj w1") simp
  obtain s where st: "getFolderStat_at e ?dir w1 = (s, w1)"
    using getFolderStat_at_world [of e ?dir w1] by (cases "getFolderStat_at e ?dir w1") simp
  have eq: "installDependency e c (key, required) (ledger, next) w
         = (if \<not> existsSync e ?pj w1
            then (Inl (undefined_property ''dist''),
                  w1 \<lparr> trace := trace w1 @ [DownloadModule ?dir] \<rparr>)
            else
              (case r of
                 Inl err \<Rightarrow> (Inl err, w1)
               | Inr p \<Rightarrow>
                   if \<not> satisfies (semver_of e) (p_version p) ?rng
                   then (Inl (undefined_property ''name''),
                         w1 \<lparr> trace := trace w1 @ [RedownloadModule ?dir] \<rparr>)
                   else
                     (case s of
                        Inl err \<Rightarrow> (Inl err, w1)
                      | Inr census \<Rightarrow> (Inl (undefined_property ''dist''), w1))))"
    using unprocessed meta nonull nomax rd st unpublished
    by (auto simp: installDependency_def downloadModule_def redownloadModule_def isModuleValid_def
        index_nullable_def io_bind_def io_then_def io_return_def io_throw_def io_exists_def
        log_event_def Let_def split: sum.splits)
  have fails: "isl (fst (installDependency e c (key, required) (ledger, next) w))"
    unfolding eq by (simp split: sum.splits)
  have messages:
    "undefined_property ''dist'' = TypeError ''Cannot read properties of undefined (reading 'dist')''"
    "undefined_property ''name'' = TypeError ''Cannot read properties of undefined (reading 'name')''"
    by (simp_all add: undefined_property_def)
  show ?thesis
  proof (intro conjI)
    show "isl (fst (installDependency e c (key, required) (ledger, next) w))" by (rule fails)
  qed (simp only: eq rd st fst_conv messages)
qed

theorem unsatisfiable_range_fails_with_TypeError_witness:
  "installDependency (registry_env leftpad_registry) default_client (''left-pad'', ''^9.0.0'')
     (Map.empty, []) leftpad_project
   = (Inl (TypeError ''Cannot read properties of undefined (reading 'dist')''),
      \<lparr> root = Dir [(''proj'',
                Dir [(''package.json'', manifest [(''left-pad'', ''^9.0.0'')]),
                     (''.gpm'', Dir [(''cache'', Dir [cached leftpad_registry ''left-pad''])])])],
        trace = [Processing ''left-pad'', Fetched ''https://registry.npmjs.org/left-pad'',
                 DownloadModule ''/proj/node_modules/left-pad''],
        pending = [] \<rparr>)
   \<and> installDependency (registry_env leftpad_registry) default_client (''left-pad'', ''^9.0.0'')
       (Map.empty, []) (leftpad_installed [(''package.json'', File 10 Opaque)])
     = (Inl SyntaxError, leftpad_looked_up [(''package.json'', File 10 Opaque)] [])
   \<and> installDependency (registry_env leftpad_registry) default_client (''left-pad'', ''^9.0.0'')
       (Map.empty, []) (leftpad_installed [leftpad_descriptor ''0.5.0''])
     = (Inl (TypeError ''Cannot read properties of undefined (reading 'name')''),
        leftpad_looked_up [leftpad_descriptor ''0.5.0'']
          [RedownloadModule ''/proj/node_modules/left-pad''])
   \<and> installDependency (registry_env leftpad_registry) default_client (''left-pad'', ''^9.0.0'')
       (Map.empty, []) (leftpad_installed [leftpad_descriptor ''9.1.0''])
     = (Inl (TypeError ''Cannot read properties of undefined (reading 'dist')''),
        leftpad_looked_up [leftpad_descriptor ''9.1.0''] [])
   \<and> installDependency (registry_env leftpad_registry) default_client (''left-pad'', ''^9.0.0'')
       (Map.empty, [])
       (leftpad_installed [leftpad_descriptor ''9.1.0'', (''readme'', Link ''gone'' None)])
     = (Inl (FsError ''ENOENT''),
        leftpad_looked_up [leftpad_descriptor ''9.1.0'', (''readme'', Link ''gone'' None)] [])"
proof -
  let ?e = "registry_env leftpad_registry"
  let ?m = "metadata_of ''left-pad'' [(''1.0.0'', []), (''1.3.0'', [])]"
  let ?w1 = "\<lparr> root = Dir [(''proj'',
                Dir [(''package.json'', manifest [(''left-pad'', ''^9.0.0'')]),
                     (''.gpm'', Dir [(''cache'', Dir [cached leftpad_registry ''left-pad''])])])],
        trace = [Processing ''left-pad'', Fetched ''https://registry.npmjs.org/left-pad''],
        pending = [] \<rparr>"
  have unprocessed: "\<not> already_processed Map.empty ''left-pad''"
    by (simp add: already_processed_def object_prototype_keys_def)
  have meta: "getPackage ?e default_client
                 (if isVersionContainPackageName ''^9.0.0''
                  then extractPackageNameFromVersion ''^9.0.0'' else ''left-pad'')
                 (leftpad_project \<lparr> trace := trace leftpad_project @ [Processing ''left-pad''] \<rparr>)
              = (Inr ?m, ?w1)"
    by (simp add: eval_defs leftpad_project_def leftpad_registry_def cached_def)
  have meta_installed: "getPackage ?e default_client
                 (if isVersionContainPackageName ''^9.0.0''
                  then extractPackageNameFromVersion ''^9.0.0'' else ''left-pad'')
                 (leftpad_installed es
                    \<lparr> trace := trace (leftpad_installed es) @ [Processing ''left-pad''] \<rparr>)
              = (Inr ?m, leftpad_looked_up es [])" for es
    by (simp add: eval_defs leftpad_installed_def leftpad_looked_up_def leftpad_registry_def
        cached_def)
  have none: "\<forall>u \<in> set (object_keys (versions ?m)).
                 \<not> satisfies (semver_of ?e) u (extractVersionFromVersion ''^9.0.0'')"
    by (simp add: eval_defs)
  have nonull: "lookup_key (versions ?m) ''null'' = None"
    by (simp add: eval_defs)
  from unsatisfiable_range_fails_with_TypeError [OF unprocessed meta none nonull, of "[]"]
  have absent: "installDependency ?e default_client (''left-pad'', ''^9.0.0'')
     (Map.empty, []) leftpad_project
   = (Inl (TypeError ''Cannot read properties of undefined (reading 'dist')''),
      ?w1 \<lparr> trace := trace ?w1 @ [DownloadModule ''/proj/node_modules/left-pad''] \<rparr>)"
    by (simp add: eval_defs)
  from unsatisfiable_range_fails_with_TypeError
    [OF unprocessed meta_installed [of "[(''package.json'', File 10 Opaque)]"] none nonull, of "[]"]
  have unreadable: "installDependency ?e default_client (''left-pad'', ''^9.0.0'')
       (Map.empty, []) (leftpad_installed [(''package.json'', File 10 Opaque)])
     = (Inl SyntaxError, leftpad_looked_up [(''package.json'', File 10 Opaque)] [])"
    by (simp add: eval_defs leftpad_looked_up_def)
  from unsatisfiable_range_fails_with_TypeError
    [OF unprocessed meta_installed [of "[leftpad_descriptor ''0.5.0'']"] none nonull, of "[]"]
  have older: "installDependency ?e default_client (''left-pad'', ''^9.0.0'')
       (Map.empty, []) (leftpad_installed [leftpad_descriptor ''0.5.0''])
     = (Inl (TypeError ''Cannot read properties of undefined (reading 'name')''),
        leftpad_looked_up [leftpad_descriptor ''0.5.0'']
          [RedownloadModule ''/proj/node_modules/left-pad''])"
    by (simp add: eval_defs leftpad_looked_up_def leftpad_descriptor_def)
  from unsatisfiable_range_fails_with_TypeError
    [OF unprocessed meta_installed [of "[leftpad_descriptor ''9.1.0'']"] none nonull, of "[]"]
  have unpublished: "installDependency ?e default_client (''left-pad'', ''^9.0.0'')
       (Map.empty, []) (leftpad_installed [leftpad_descriptor ''9.1.0''])
     = (Inl (TypeError ''Cannot read properties of undefined (reading 'dist')''),
        leftpad_looked_up [leftpad_descriptor ''9.1.0''] [])"
    by (simp add: eval_defs leftpad_looked_up_def leftpad_descriptor_def)
  from unsatisfiable_range_fails_with_TypeError
    [OF unprocessed meta_installed [of "[leftpad_descriptor ''9.1.0'', (''readme'', Link ''gone'' None)]"] none nonull, of "[]"]
  have dangling: "installDependency ?e default_client (''left-pad'', ''^9.0.0'')
       (Map.empty, [])
       (leftpad_installed [leftpad_descriptor ''9.1.0'', (''readme'', Link ''gone'' None)])
     = (Inl (FsError ''ENOENT''),
        leftpad_looked_up [leftpad_descriptor ''9.1.0'', (''readme'', Link ''gone'' None)] [])"
    by (simp add: eval_defs leftpad_looked_up_def leftpad_descriptor_def)
  from absent unreadable older unpublished dangling show ?thesis by simp
qed

text \<open>
  C4 as stated fails: the run for a manifest that requires \<open>left-pad\<close> in \<open>^9.0.0\<close>, of
  which the registry has 1.0.0 and 1.3.0, ends in a \<open>TypeError\<close> whose message contains
  neither \<open>left-pad\<close> nor \<open>^9.0.0\<close>.
\<close>

theorem unsatisfiable_range_counterexample:
  "install_command (registry_env leftpad_registry) False leftpad_project
     = Some (Inl (TypeError ''Cannot read properties of undefined (reading 'dist')''), leftpad_failed)
   \<and> \<not> str_includes ''Cannot read properties of undefined (reading 'dist')'' ''left-pad''
   \<and> \<not> str_includes ''Cannot read properties of undefined (reading 'dist')'' ''^9.0.0''"
  by code_simp

section \<open>Downloading a module\<close>
















text \<open>
  Also in the part that holds, the extraction is not over when \<open>downloadModule\<close> returns:
  on the registry above the directory of \<open>a\<close> is empty at that point, and the descriptor
  is written once the pending unpacking has run.
\<close>

lemma downloadModule_returns_before_unpacking:
  "downloadModule (registry_env upgrade_registry) (Some a_version) ''/proj/node_modules/a'' empty_project
     = (Inr (),
        \<lparr> root = project_with [],
          trace = download_trace @ [UnpackModule ''/proj/node_modules/a/a-1.0.0.tgz''],
          pending = [unpacking ''a'' ''1.0.0'' []] \<rparr>)
   \<and> drain \<lparr> root = project_with [],
          trace = download_trace @ [UnpackModule ''/proj/node_modules/a/a-1.0.0.tgz''],
          pending = [unpacking ''a'' ''1.0.0'' []] \<rparr>
     = (Inr (),
        \<lparr> root = project_with [(''package.json'', File 10 (PackageJson (descriptor_of ''a'' ''1.0.0'' [])))],
          trace = download_trace @ [UnpackModule ''/proj/node_modules/a/a-1.0.0.tgz''],
          pending = [] \<rparr>)"
  by code_simp

end
